theory Spec2Isabelle
  imports Complex_Main "HOL-Library.Multiset"
begin

section \<open>News sentiment and stock returns: the correlation pipeline\<close>

text \<open>
  A shallow embedding of \<^verbatim>\<open>src/news_stock_correlation.py\<close> (class
  \<^verbatim>\<open>NewsStockCorrelation\<close>). The pandas, datetime and scipy calls the
  methods make are written out as list functions that compute what the library call
  computes on the frames the class builds.

  Conventions.
  \<^item> A \<^verbatim>\<open>datetime.date\<close> is its proleptic Gregorian ordinal
    (\<^verbatim>\<open>date.toordinal()\<close>), an \<open>int\<close>; valid dates lie between 1 and
    \<open>MAXORDINAL\<close> (\<^verbatim>\<open>date.max\<close>, 9999-12-31). A cell of a parsed date column
    is a \<open>timestamp\<close>: a date, or \<^verbatim>\<open>NaT\<close> for an empty cell.
  \<^item> A float is an IEEE binary64 value: a finite rational, negative zero, an infinity or
    NaN. Every arithmetic result is rounded to the nearest binary64 value, ties to even,
    with gradual underflow and overflow to infinity.
  \<^item> A raised exception is the \<open>Inl\<close> branch of a sum; a call that never returns
    is the value \<open>None\<close>.
\<close>

subsection \<open>Values\<close>

datatype error = OverflowError | ValueError | AttributeError | OtherException string

datatype float = Fin rat | NegZero | PosInf | NegInf | NaN

text \<open>\<^verbatim>\<open>pandas.isna\<close> on a float: only NaN is missing (infinities are not, since
  \<^verbatim>\<open>mode.use_inf_as_na\<close> is off by default).\<close>

definition isna :: "float \<Rightarrow> bool" where
  "isna v = (v = NaN)"

definition isinf :: "float \<Rightarrow> bool" where
  "isinf v = (v = PosInf \<or> v = NegInf)"

definition is_zero :: "float \<Rightarrow> bool" where
  "is_zero v = (v = Fin 0 \<or> v = NegZero)"

definition is_finite :: "float \<Rightarrow> bool" where
  "is_finite v = (v \<noteq> PosInf \<and> v \<noteq> NegInf \<and> v \<noteq> NaN)"

fun signbit :: "float \<Rightarrow> bool" where
  "signbit (Fin q) = (q < 0)"
| "signbit NegZero = True"
| "signbit PosInf = False"
| "signbit NegInf = True"
| "signbit NaN = False"

fun val :: "float \<Rightarrow> rat" where
  "val (Fin q) = q"
| "val NegZero = 0"
| "val PosInf = 0"
| "val NegInf = 0"
| "val NaN = 0"

definition signed_inf :: "bool \<Rightarrow> float" where
  "signed_inf negative = (if negative then NegInf else PosInf)"

definition signed_zero :: "bool \<Rightarrow> float" where
  "signed_zero negative = (if negative then NegZero else Fin 0)"

text \<open>IEEE comparison \<^verbatim>\<open>==\<close>: NaN is equal to nothing, itself included, and the two
  zeros are equal.\<close>

definition float_eq :: "float \<Rightarrow> float \<Rightarrow> bool" where
  "float_eq a b = (a \<noteq> NaN \<and> b \<noteq> NaN \<and> (a = b \<or> (is_zero a \<and> is_zero b)))"

subsection \<open>Rounding to binary64\<close>

text \<open>\<open>bit_length\<close> is the number of binary digits of a positive integer;
  \<open>ilog2 r\<close> is the exponent \<open>e\<close> with \<open>2^e \<le> r < 2^(e+1)\<close> of a positive
  rational. Around a value of exponent \<open>e\<close> the binary64 values are the multiples
  of \<open>2^(e-52)\<close>, and of \<open>2^(-1074)\<close> in the subnormal range.\<close>

function bit_length :: "int \<Rightarrow> int" where
  "bit_length n = (if n \<le> 0 then 0 else 1 + bit_length (n div 2))"
  by pat_completeness auto
termination
  by (relation "measure nat") auto

declare bit_length.simps [simp del]

definition pow2 :: "int \<Rightarrow> rat" where
  "pow2 k = (if 0 \<le> k then 2 ^ nat k else 1 / 2 ^ nat (- k))"

definition ilog2 :: "rat \<Rightarrow> int" where
  "ilog2 r =
     (case quotient_of r of (p, q) \<Rightarrow>
        (let d = bit_length p - bit_length q
         in if pow2 d \<le> r then d else d - 1))"

definition round_even :: "rat \<Rightarrow> int" where
  "round_even m =
     (let n = \<lfloor>m\<rfloor>; f = m - of_int n
      in if f < 1 / 2 then n else if 1 / 2 < f then n + 1 else if even n then n else n + 1)"

text \<open>The nearest binary64 value with the exponent range unbounded above.\<close>

definition round_fin :: "rat \<Rightarrow> rat" where
  "round_fin r =
     (if r = 0 then 0
      else (let k = max (ilog2 \<bar>r\<bar> - 52) (- 1074)
            in of_int (round_even (r / pow2 k)) * pow2 k))"

text \<open>The binary64 result of an operation whose exact value is \<open>r \<noteq> 0\<close>: a result
  that rounds to zero keeps the sign of \<open>r\<close>, one of magnitude \<open>2^1024\<close> or more
  is an infinity.\<close>

definition round_double :: "rat \<Rightarrow> float" where
  "round_double r =
     (let v = round_fin r
      in if v = 0 then (if r < 0 then NegZero else Fin 0)
         else if 1024 \<le> ilog2 \<bar>v\<bar> then (if 0 < v then PosInf else NegInf)
         else Fin v)"

subsection \<open>Float arithmetic\<close>

text \<open>Division, subtraction and multiplication as numpy does them on float64 arrays:
  nothing is raised, a zero divisor gives a signed infinity and \<open>0 / 0\<close> gives NaN.\<close>

definition float_div :: "float \<Rightarrow> float \<Rightarrow> float" where
  "float_div a b =
     (if a = NaN \<or> b = NaN then NaN
      else if isinf a then (if isinf b then NaN else signed_inf (signbit a \<noteq> signbit b))
      else if isinf b then signed_zero (signbit a \<noteq> signbit b)
      else if is_zero b then (if is_zero a then NaN else signed_inf (signbit a \<noteq> signbit b))
      else if is_zero a then signed_zero (signbit a \<noteq> signbit b)
      else round_double (val a / val b))"

definition float_sub :: "float \<Rightarrow> float \<Rightarrow> float" where
  "float_sub a b =
     (if a = NaN \<or> b = NaN then NaN
      else if isinf a then (if a = b then NaN else a)
      else if isinf b then signed_inf (\<not> signbit b)
      else if val a = val b
        then (if is_zero a \<and> signbit a \<and> \<not> signbit b then NegZero else Fin 0)
      else round_double (val a - val b))"

definition float_mul :: "float \<Rightarrow> float \<Rightarrow> float" where
  "float_mul a b =
     (if a = NaN \<or> b = NaN then NaN
      else if isinf a \<or> isinf b
        then (if is_zero a \<or> is_zero b then NaN else signed_inf (signbit a \<noteq> signbit b))
      else if is_zero a \<or> is_zero b then signed_zero (signbit a \<noteq> signbit b)
      else round_double (val a * val b))"

subsection \<open>Frames\<close>

text \<open>A row of the stock frame (\<^verbatim>\<open>Date\<close>, \<^verbatim>\<open>Close\<close>) and a row of the
  news frame (\<^verbatim>\<open>date\<close>, \<^verbatim>\<open>headline\<close>, \<^verbatim>\<open>publisher\<close>). A news date is
  the calendar date \<^verbatim>\<open>.date()\<close> cuts the cell to, or \<^verbatim>\<open>NaT\<close>:
  \<^verbatim>\<open>load_data\<close> checks the column names only, so an empty date cell is loaded.
  Rows stay in file order: \<^verbatim>\<open>load_data\<close> of this class does not sort. Stock rows
  have a date and a present close (pandas pads a missing close before
  \<^verbatim>\<open>pct_change\<close> divides, which is not part of this model).\<close>

datatype timestamp = NaT | Timestamp int

record stock_row =
  Date :: int
  Close :: float

record news_row =
  date :: timestamp
  headline :: string
  publisher :: string

subsection \<open>\<^verbatim>\<open>align_dates\<close>\<close>

definition MAXORDINAL :: int where
  "MAXORDINAL = 3652059"

text \<open>
  \<^verbatim>\<open>
  def adjust_to_trading_day(date):
      date = date.date()
      while date not in trading_days:
          date += timedelta(days=1)
      return date
  \<close>
  On a cell that holds a date: \<^verbatim>\<open>date + timedelta(days=1)\<close> raises
  \<^verbatim>\<open>OverflowError\<close> when the result would lie after \<^verbatim>\<open>date.max\<close>, so the
  loop started on a date ends: the distance to \<open>MAXORDINAL\<close> decreases.
\<close>

function adjust_to_trading_day :: "int list \<Rightarrow> int \<Rightarrow> error + int" where
  "adjust_to_trading_day trading_days d =
     (if d \<in> set trading_days then Inr d
      else if MAXORDINAL < d + 1 then Inl OverflowError
      else adjust_to_trading_day trading_days (d + 1))"
  by pat_completeness auto
termination
  by (relation "measure (\<lambda>(trading_days, d). nat (MAXORDINAL - d))") auto

declare adjust_to_trading_day.simps [simp del]

text \<open>The same loop cut off after \<open>n\<close> tests of its condition: \<open>None\<close> when it is
  still running then.\<close>

fun adjust_steps :: "nat \<Rightarrow> int list \<Rightarrow> int \<Rightarrow> (error + int) option" where
  "adjust_steps 0 trading_days d = None"
| "adjust_steps (Suc n) trading_days d =
     (if d \<in> set trading_days then Some (Inr d)
      else if MAXORDINAL < d + 1 then Some (Inl OverflowError)
      else adjust_steps n trading_days (d + 1))"

text \<open>
  The function on any cell of the date column. On \<^verbatim>\<open>NaT\<close>, \<^verbatim>\<open>NaT.date()\<close> is
  \<^verbatim>\<open>NaT\<close>, \<^verbatim>\<open>NaT\<close> is equal to no element of \<^verbatim>\<open>trading_days\<close>, and
  \<^verbatim>\<open>NaT + timedelta(days=1)\<close> is \<^verbatim>\<open>NaT\<close> again: nothing is raised and the
  loop goes on. \<open>None\<close> is the call that never returns.
\<close>

partial_function (option) adjust_timestamp :: "int list \<Rightarrow> timestamp \<Rightarrow> (error + int) option" where
  "adjust_timestamp trading_days t =
     (case t of
        NaT \<Rightarrow> adjust_timestamp trading_days NaT
      | Timestamp d \<Rightarrow>
          (if d \<in> set trading_days then Some (Inr d)
           else if MAXORDINAL < d + 1 then Some (Inl OverflowError)
           else adjust_timestamp trading_days (Timestamp (d + 1))))"

text \<open>\<^verbatim>\<open>trading_days = self.stock_df['Date'].dt.date.unique()\<close>: the distinct dates in
  order of first appearance. On a stock frame without rows the \<^verbatim>\<open>Date\<close> column
  is not a datetime column, and \<^verbatim>\<open>.dt\<close> raises \<^verbatim>\<open>AttributeError\<close>.\<close>

definition unique :: "'a list \<Rightarrow> 'a list" where
  "unique xs = rev (remdups (rev xs))"

definition trading_days_of :: "stock_row list \<Rightarrow> int list" where
  "trading_days_of stock_df = unique (map Date stock_df)"

text \<open>\<^verbatim>\<open>Series.apply\<close>: the rows in order; the first exception ends the whole call,
  and a call that does not return is never followed by another.\<close>

fun apply_series :: "('a \<Rightarrow> (error + 'b) option) \<Rightarrow> 'a list \<Rightarrow> (error + 'b list) option" where
  "apply_series f [] = Some (Inr [])"
| "apply_series f (x # xs) =
     (case f x of
        None \<Rightarrow> None
      | Some (Inl e) \<Rightarrow> Some (Inl e)
      | Some (Inr y) \<Rightarrow>
          (case apply_series f xs of
             None \<Rightarrow> None
           | Some (Inl e) \<Rightarrow> Some (Inl e)
           | Some (Inr ys) \<Rightarrow> Some (Inr (y # ys))))"

definition align_dates :: "news_row list \<Rightarrow> stock_row list \<Rightarrow> (error + int list) option" where
  "align_dates news_df stock_df =
     (if stock_df = [] then Some (Inl AttributeError)
      else apply_series (adjust_timestamp (trading_days_of stock_df)) (map date news_df))"

subsection \<open>\<^verbatim>\<open>analyze_sentiment\<close>\<close>

text \<open>\<^verbatim>\<open>TextBlob(str(text)).sentiment.polarity\<close> is an external scorer: a parameter
  \<open>polarity\<close> from headlines to scores, which are finite binary64 values between
  -1 and 1.\<close>

definition analyze_sentiment :: "(string \<Rightarrow> rat) \<Rightarrow> news_row list \<Rightarrow> rat list" where
  "analyze_sentiment polarity news_df = map (\<lambda>r. polarity (headline r)) news_df"

subsection \<open>\<^verbatim>\<open>calculate_daily_metrics\<close>\<close>

text \<open>
  The method reads the columns \<^verbatim>\<open>aligned_date\<close> and \<^verbatim>\<open>sentiment\<close> of the news
  frame: a list of pairs, one per news row, in row order.

  \<^verbatim>\<open>news_df.groupby('aligned_date')['sentiment'].agg(['mean', 'count'])\<close>: one row per
  distinct key, keys ascending (\<^verbatim>\<open>sort=True\<close>), with the mean and the number of the
  scores of the key's rows. pandas computes the mean of a group in binary64: it adds the
  scores in row order with a running compensation (Kahan summation) and divides the sum
  by the count. Scores are bounded by 1, so no sum overflows: the rounding is
  \<open>round_fin\<close>.
\<close>

record sentiment_row =
  aligned_date :: int
  avg_sentiment :: rat
  news_count :: nat

definition group_keys :: "(int \<times> rat) list \<Rightarrow> int list" where
  "group_keys news = sort (remdups (map fst news))"

definition group_scores :: "int \<Rightarrow> (int \<times> rat) list \<Rightarrow> rat list" where
  "group_scores k news = map snd (filter (\<lambda>r. fst r = k) news)"

text \<open>
  \<^verbatim>\<open>
  y = val - compensation
  t = sumx + y
  compensation = t - sumx - y
  sumx = t
  \<close>
\<close>

definition kahan_step :: "rat \<times> rat \<Rightarrow> rat \<Rightarrow> rat \<times> rat" where
  "kahan_step acc v =
     (case acc of (sumx, compensation) \<Rightarrow>
        (let y = round_fin (v - compensation);
             t = round_fin (sumx + y)
         in (t, round_fin (round_fin (t - sumx) - y))))"

definition group_sum :: "rat list \<Rightarrow> rat" where
  "group_sum xs = fst (foldl kahan_step (0, 0) xs)"

definition mean :: "rat list \<Rightarrow> rat" where
  "mean xs = round_fin (group_sum xs / of_nat (length xs))"

definition daily_sentiment :: "(int \<times> rat) list \<Rightarrow> sentiment_row list" where
  "daily_sentiment news =
     map (\<lambda>k. \<lparr>aligned_date = k,
               avg_sentiment = mean (group_scores k news),
               news_count = length (group_scores k news)\<rparr>)
         (group_keys news)"

text \<open>
  \<^verbatim>\<open>self.stock_df['Close'].pct_change() * 100\<close>: \<^verbatim>\<open>pct_change\<close> computes
  \<^verbatim>\<open>data / data.shift(1) - 1\<close>, so the first row is NaN and row \<open>i\<close> divides by the
  close of row \<open>i - 1\<close>, in row order, whatever the dates are.
\<close>

fun pct_change :: "float list \<Rightarrow> float list" where
  "pct_change [] = []"
| "pct_change (c # cs) =
     NaN # map (\<lambda>(prev, cur). float_sub (float_div cur prev) (Fin 1)) (zip (c # cs) cs)"

definition daily_return_col :: "stock_row list \<Rightarrow> float list" where
  "daily_return_col stock_df =
     map (\<lambda>v. float_mul v (Fin 100)) (pct_change (map Close stock_df))"

text \<open>The stock frame with its two new columns \<^verbatim>\<open>daily_return\<close> and
  \<^verbatim>\<open>date_only\<close>.\<close>

record stock_metrics = stock_row +
  daily_return :: float
  date_only :: int

definition add_return_columns :: "stock_row list \<Rightarrow> stock_metrics list" where
  "add_return_columns stock_df =
     map (\<lambda>(r, v). \<lparr>Date = Date r, Close = Close r, daily_return = v, date_only = Date r\<rparr>)
         (zip stock_df (daily_return_col stock_df))"

text \<open>
  \<^verbatim>\<open>pd.merge(daily_sentiment, stock_df[[...]], left_index=True, right_on='date_only',
  how='inner')\<close>: every pair of a left row and a right row with the same key, in the order
  of the left keys and, under one key, in the order of the right rows. A merged row is
  the pair of its two rows. \<^verbatim>\<open>dropna(subset=['daily_return'])\<close> then removes the
  pairs whose return is NaN.
\<close>

definition merge_inner ::
  "sentiment_row list \<Rightarrow> stock_metrics list \<Rightarrow> (sentiment_row \<times> stock_metrics) list" where
  "merge_inner left right =
     concat (map (\<lambda>l. map (\<lambda>r. (l, r)) (filter (\<lambda>r. date_only r = aligned_date l) right)) left)"

definition dropna ::
  "(sentiment_row \<times> stock_metrics) list \<Rightarrow> (sentiment_row \<times> stock_metrics) list" where
  "dropna df = filter (\<lambda>m. \<not> isna (daily_return (snd m))) df"

definition calculate_daily_metrics ::
  "(int \<times> rat) list \<Rightarrow> stock_row list \<Rightarrow> (sentiment_row \<times> stock_metrics) list" where
  "calculate_daily_metrics news stock_df =
     dropna (merge_inner (daily_sentiment news) (add_return_columns stock_df))"

subsection \<open>\<^verbatim>\<open>calculate_correlation\<close>\<close>

text \<open>
  \<^verbatim>\<open>scipy.stats.pearsonr(x, y)\<close> raises \<^verbatim>\<open>ValueError\<close> when the lengths differ
  or are below 2, returns \<^verbatim>\<open>(nan, nan)\<close> (with a warning, no exception) when
  \<^verbatim>\<open>(x == x[0]).all() or (y == y[0]).all()\<close>, and otherwise computes the coefficient
  and the p-value in floating point: that last computation is the parameter
  \<open>statistic\<close>.
\<close>

definition is_constant :: "float list \<Rightarrow> bool" where
  "is_constant x = (case x of [] \<Rightarrow> True | x0 # _ \<Rightarrow> list_all (\<lambda>v. float_eq v x0) x)"

definition pearsonr ::
  "(float list \<Rightarrow> float list \<Rightarrow> float \<times> float) \<Rightarrow> float list \<Rightarrow> float list
     \<Rightarrow> error + float \<times> float" where
  "pearsonr statistic x y =
     (if length x \<noteq> length y then Inl ValueError
      else if length x < 2 then Inl ValueError
      else if is_constant x \<or> is_constant y then Inr (NaN, NaN)
      else Inr (statistic x y))"

definition calculate_correlation ::
  "(float list \<Rightarrow> float list \<Rightarrow> float \<times> float) \<Rightarrow> (sentiment_row \<times> stock_metrics) list
     \<Rightarrow> error + float \<times> float" where
  "calculate_correlation statistic merged_df =
     pearsonr statistic (map (\<lambda>m. Fin (avg_sentiment (fst m))) merged_df)
                        (map (\<lambda>m. daily_return (snd m)) merged_df)"

subsection \<open>\<^verbatim>\<open>run_analysis\<close>\<close>

text \<open>
  What the run reads from outside is a record: whether \<^verbatim>\<open>os.makedirs\<close> and
  \<^verbatim>\<open>to_csv\<close> raise, what \<^verbatim>\<open>load_data\<close> reads (\<open>None\<close> when it returns
  \<^verbatim>\<open>False\<close>), the scorer and the statistic, and for \<^verbatim>\<open>visualize_results\<close>
  whether drawing and saving the figure raise (\<open>plot_raises\<close>, the image is then not
  complete) and whether \<^verbatim>\<open>plt.show()\<close> raises after the image has been saved
  (\<open>show_raises\<close>). What the run leaves is the returned \<^verbatim>\<open>dict\<close>, an association
  list in insertion order, and the files it has completed by then. A run that never returns
  is \<open>None\<close>.
\<close>

record environment =
  makedirs_raises :: "error option"
  load_data :: "(news_row list \<times> stock_row list) option"
  polarity :: "string \<Rightarrow> rat"
  statistic :: "float list \<Rightarrow> float list \<Rightarrow> float \<times> float"
  to_csv_raises :: "error option"
  plot_raises :: "error option"
  show_raises :: "error option"

datatype pyval = PyStr string | PyFloat float | PyInt int

record outcome =
  returned :: "(string \<times> pyval) list"
  files_written :: "string list"

text \<open>\<^verbatim>\<open>str(e)\<close>\<close>

definition backquote :: char where
  "backquote = char_of (96 :: nat)"

fun str_error :: "error \<Rightarrow> string" where
  "str_error OverflowError = ''date value out of range''"
| "str_error ValueError =
     backquote # ''x'' @ backquote # '' and '' @ backquote # ''y'' @ backquote
       # '' must have length at least 2.''"
| "str_error AttributeError = ''Can only use .dt accessor with datetimelike values''"
| "str_error (OtherException msg) = msg"

text \<open>\<^verbatim>\<open>os.path.join(a, b)\<close> on POSIX.\<close>

definition path_join :: "string \<Rightarrow> string \<Rightarrow> string" where
  "path_join a b =
     (if b \<noteq> [] \<and> hd b = CHR ''/'' then b
      else if a = [] \<or> last a = CHR ''/'' then a @ b
      else a @ ''/'' @ b)"

definition error_result :: "error \<Rightarrow> string list \<Rightarrow> outcome" where
  "error_result e files =
     \<lparr>returned = [(''error'', PyStr (str_error e))], files_written = files\<rparr>"

definition run_analysis :: "environment \<Rightarrow> string \<Rightarrow> string \<Rightarrow> outcome option" where
  "run_analysis env symbol output_dir =
     (case makedirs_raises env of
        Some e \<Rightarrow> Some (error_result e [])
      | None \<Rightarrow>
     (case load_data env of
        None \<Rightarrow>
          Some \<lparr>returned = [(''error'', PyStr ''Data loading failed'')], files_written = []\<rparr>
      | Some (news_df, stock_df) \<Rightarrow>
     (case align_dates news_df stock_df of
        None \<Rightarrow> None
      | Some (Inl e) \<Rightarrow> Some (error_result e [])
      | Some (Inr aligned) \<Rightarrow>
     (let sentiment = analyze_sentiment (polarity env) news_df;
          merged_df = calculate_daily_metrics (zip aligned sentiment) stock_df
      in
     (case calculate_correlation (statistic env) merged_df of
        Inl e \<Rightarrow> Some (error_result e [])
      | Inr (corr, p_value) \<Rightarrow>
     (let merged_path = path_join output_dir (symbol @ ''_news_stock_merged.csv'')
      in
     (case to_csv_raises env of
        Some e \<Rightarrow> Some (error_result e [])
      | None \<Rightarrow>
     (let viz_path = path_join output_dir (symbol @ ''_correlation_plot.png'')
      in
     (case plot_raises env of
        Some e \<Rightarrow> Some (error_result e [merged_path])
      | None \<Rightarrow>
     (case show_raises env of
        Some e \<Rightarrow> Some (error_result e [merged_path, viz_path])
      | None \<Rightarrow>
          Some \<lparr>returned =
                  [(''symbol'', PyStr symbol),
                   (''correlation'', PyFloat corr),
                   (''p_value'', PyFloat p_value),
                   (''num_observations'', PyInt (int (length merged_df))),
                   (''merged_data_path'', PyStr merged_path),
                   (''visualization_path'', PyStr viz_path)],
                files_written = [merged_path, viz_path]\<rparr>))))))))))"

section \<open>Properties\<close>

subsection \<open>Alignment\<close>

lemma adjust_member:
  "d \<in> set C \<Longrightarrow> adjust_to_trading_day C d = Inr d"
  by (simp add: adjust_to_trading_day.simps)

lemma adjust_finds_next:
  assumes "x \<in> set C" and "d \<le> x" and "x \<le> MAXORDINAL"
  shows "\<exists>r. adjust_to_trading_day C d = Inr r \<and> r \<in> set C \<and> d \<le> r \<and> r \<le> x
           \<and> (\<forall>y\<in>set C. d \<le> y \<longrightarrow> r \<le> y)"
  using assms
proof (induction C d rule: adjust_to_trading_day.induct)
  case (1 C d)
  show ?case
  proof (cases "d \<in> set C")
    case True
    with "1.prems" show ?thesis
      by (auto simp: adjust_member)
  next
    case False
    with "1.prems" have lt: "d < x" by (cases "d = x") auto
    with "1.prems" have nov: "\<not> MAXORDINAL < d + 1" by simp
    from lt have "d + 1 \<le> x" by simp
    from "1.IH" [OF False nov "1.prems"(1) this "1.prems"(3)]
    obtain r where r: "adjust_to_trading_day C (d + 1) = Inr r" "r \<in> set C" "d + 1 \<le> r"
      "r \<le> x" "\<forall>y\<in>set C. d + 1 \<le> y \<longrightarrow> r \<le> y"
      by blast
    have eq: "adjust_to_trading_day C d = Inr r"
      using False nov r(1) by (subst adjust_to_trading_day.simps) simp
    have "\<forall>y\<in>set C. d \<le> y \<longrightarrow> r \<le> y"
    proof (intro ballI impI)
      fix y assume y: "y \<in> set C" "d \<le> y"
      with False have "y \<noteq> d" by auto
      with y have "d + 1 \<le> y" by simp
      with r(5) y show "r \<le> y" by blast
    qed
    with eq r show ?thesis by auto
  qed
qed

lemma adjust_overflow:
  assumes "\<forall>x\<in>set C. x < d"
  shows "adjust_to_trading_day C d = Inl OverflowError"
  using assms
proof (induction C d rule: adjust_to_trading_day.induct)
  case (1 C d)
  from "1.prems" have notin: "d \<notin> set C" by auto
  show ?case
  proof (cases "MAXORDINAL < d + 1")
    case True
    with notin show ?thesis by (subst adjust_to_trading_day.simps) simp
  next
    case False
    from "1.prems" have "\<forall>x\<in>set C. x < d + 1" by auto
    from "1.IH" [OF notin False this] notin False show ?thesis
      by (subst adjust_to_trading_day.simps) simp
  qed
qed

lemma adjust_steps_running:
  assumes "\<forall>x\<in>set C. x < d" and "int n \<le> MAXORDINAL - d"
  shows "adjust_steps n C d = None"
  using assms
proof (induction n arbitrary: d)
  case 0
  show ?case by simp
next
  case (Suc n)
  from Suc.prems have notin: "d \<notin> set C" by auto
  from Suc.prems have nov: "\<not> MAXORDINAL < d + 1" by simp
  from Suc.prems have "\<forall>x\<in>set C. x < d + 1" by auto
  moreover from Suc.prems have "int n \<le> MAXORDINAL - (d + 1)" by simp
  ultimately have "adjust_steps n C (d + 1) = None" by (rule Suc.IH)
  with notin nov show ?case by simp
qed

lemma adjust_steps_sound:
  "adjust_steps n C d = Some r \<Longrightarrow> adjust_to_trading_day C d = r"
proof (induction n arbitrary: d)
  case 0
  then show ?case by simp
next
  case (Suc n)
  then show ?case
    by (subst adjust_to_trading_day.simps) (auto split: if_splits)
qed

lemma adjust_steps_enough:
  "0 < n \<Longrightarrow> MAXORDINAL - d < int n \<Longrightarrow>
   adjust_steps n C d = Some (adjust_to_trading_day C d)"
proof (induction n arbitrary: d)
  case 0
  then show ?case by simp
next
  case (Suc n)
  show ?case
  proof (cases "d \<in> set C \<or> MAXORDINAL < d + 1")
    case True
    then show ?thesis
      by (subst adjust_to_trading_day.simps) auto
  next
    case False
    with Suc.prems have "0 < n" "MAXORDINAL - (d + 1) < int n" by auto
    from Suc.IH [OF this] have "adjust_steps n C (d + 1) = Some (adjust_to_trading_day C (d + 1))" .
    moreover from False have "adjust_to_trading_day C d = adjust_to_trading_day C (d + 1)"
      by (subst adjust_to_trading_day.simps) simp
    ultimately show ?thesis using False by simp
  qed
qed


lemma adjust_timestamp_Timestamp:
  "adjust_timestamp C (Timestamp d) = Some (adjust_to_trading_day C d)"
proof (induction C d rule: adjust_to_trading_day.induct)
  case (1 C d)
  show ?case
  proof (cases "d \<in> set C \<or> MAXORDINAL < d + 1")
    case True
    then show ?thesis
      by (subst adjust_timestamp.simps, subst adjust_to_trading_day.simps) auto
  next
    case False
    then have "adjust_timestamp C (Timestamp (d + 1)) = Some (adjust_to_trading_day C (d + 1))"
      using "1.IH" by simp
    moreover from False have "adjust_to_trading_day C d = adjust_to_trading_day C (d + 1)"
      by (subst adjust_to_trading_day.simps) simp
    moreover from False have "adjust_timestamp C (Timestamp d) = adjust_timestamp C (Timestamp (d + 1))"
      by (subst adjust_timestamp.simps) simp
    ultimately show ?thesis by simp
  qed
qed

lemma adjust_timestamp_returns_date:
  assumes "adjust_timestamp C t = Some r"
  shows "t \<noteq> NaT"
proof (rule adjust_timestamp.raw_induct [where P = "\<lambda>C t r. t \<noteq> NaT", OF _ assms])
  fix f :: "int list \<Rightarrow> timestamp \<Rightarrow> (error + int) option" and C' t' r'
  assume IH: "\<And>C t r. f C t = Some r \<Longrightarrow> t \<noteq> NaT"
    and eq: "(case t' of
                NaT \<Rightarrow> f C' NaT
              | Timestamp d \<Rightarrow>
                  (if d \<in> set C' then Some (Inr d)
                   else if MAXORDINAL < d + 1 then Some (Inl OverflowError)
                   else f C' (Timestamp (d + 1)))) = Some r'"
  show "t' \<noteq> NaT"
  proof
    assume "t' = NaT"
    with eq have "f C' NaT = Some r'" by simp
    then have "NaT \<noteq> NaT" by (rule IH)
    then show False by simp
  qed
qed

lemma adjust_timestamp_NaT: "adjust_timestamp C NaT = None"
proof (cases "adjust_timestamp C NaT")
  case None
  then show ?thesis .
next
  case (Some r)
  then have "NaT \<noteq> NaT" by (rule adjust_timestamp_returns_date)
  then show ?thesis by simp
qed

text \<open>
  Claim C1. For a non-empty calendar \<open>C\<close> of valid dates and a news date \<open>d\<close> that is
  at most the largest date of \<open>C\<close>, \<^verbatim>\<open>adjust_to_trading_day\<close> returns the smallest
  trading day \<open>r\<close> of \<open>C\<close> with \<open>d \<le> r\<close>; when \<open>d\<close> is itself a trading day the
  result is \<open>d\<close>, and aligning the result again returns it unchanged.
\<close>

theorem C1_adjust_smallest_trading_day:
  assumes "C \<noteq> []" and "\<forall>x\<in>set C. 1 \<le> x \<and> x \<le> MAXORDINAL" and "d \<le> Max (set C)"
  shows "\<exists>r. adjust_to_trading_day C d = Inr r \<and> r \<in> set C \<and> d \<le> r
           \<and> (\<forall>y\<in>set C. d \<le> y \<longrightarrow> r \<le> y)
           \<and> (d \<in> set C \<longrightarrow> r = d)
           \<and> adjust_to_trading_day C r = Inr r"
proof -
  from assms(1) have "Max (set C) \<in> set C" by simp
  moreover from this assms(2) have "Max (set C) \<le> MAXORDINAL" by blast
  ultimately obtain r where r: "adjust_to_trading_day C d = Inr r" "r \<in> set C" "d \<le> r"
      "\<forall>y\<in>set C. d \<le> y \<longrightarrow> r \<le> y"
    using adjust_finds_next [of "Max (set C)" C d] assms(3) by blast
  have "d \<in> set C \<longrightarrow> r = d"
    using r(1) by (auto simp: adjust_member)
  moreover have "adjust_to_trading_day C r = Inr r"
    using r(2) by (rule adjust_member)
  ultimately show ?thesis using r by blast
qed

theorem C1_adjust_smallest_trading_day_witness:
  "[738000, 738003] \<noteq> ([] :: int list)
   \<and> 1 \<le> (738000 :: int) \<and> 738003 \<le> MAXORDINAL
   \<and> (738001 :: int) \<le> Max (set [738000, 738003])
   \<and> adjust_to_trading_day [738000, 738003] 738001 = Inr 738003
   \<and> adjust_to_trading_day [738000, 738003] 738003 = Inr 738003"
proof -
  have h1: "[738000, 738003] \<noteq> ([] :: int list)" by simp
  have h2: "\<forall>x\<in>set [738000, 738003 :: int]. 1 \<le> x \<and> x \<le> MAXORDINAL"
    by (simp add: MAXORDINAL_def)
  have h3: "(738001 :: int) \<le> Max (set [738000, 738003])" by simp
  from C1_adjust_smallest_trading_day [OF h1 h2 h3]
  obtain r where r: "adjust_to_trading_day [738000, 738003] 738001 = Inr r"
      "r \<in> set [738000, 738003]" "738001 \<le> r" "adjust_to_trading_day [738000, 738003] r = Inr r"
    by blast
  from r(2,3) have "r = 738003" by auto
  with r(1,4) h1 h3 show ?thesis by (simp add: MAXORDINAL_def)
qed

text \<open>
  Claim C2, as stated, fails: for a news date after the last trading day the loop does not
  stop within a margin of the calendar's last date and raises no alignment error of its
  own. With the single trading day 738000 and the news date 738001 the loop is still
  running after 400 tests of its condition, and what ends it is the
  \<^verbatim>\<open>OverflowError\<close> of the date arithmetic.
\<close>

theorem C2_bounded_lookahead_counterexample:
  "adjust_steps 400 [738000] 738001 = None
   \<and> adjust_to_trading_day [738000] 738001 = Inl OverflowError"
proof -
  have "adjust_steps 400 [738000] 738001 = None"
    by (rule adjust_steps_running) (simp_all add: MAXORDINAL_def)
  moreover have "adjust_to_trading_day [738000] 738001 = Inl OverflowError"
    by (rule adjust_overflow) simp
  ultimately show ?thesis by simp
qed

text \<open>
  Claim C2, amended. On a news row with a date \<open>d\<close>, \<^verbatim>\<open>adjust_to_trading_day\<close>
  ends after at most \<open>MAXORDINAL - d + 1\<close> tests of the loop condition. When \<open>d\<close>
  is a valid date after every trading day it ends by raising \<^verbatim>\<open>OverflowError\<close>, and
  only once the scan has passed \<^verbatim>\<open>date.max\<close>: after any \<open>n \<le> MAXORDINAL - d\<close>
  tests the loop is still running. On a news row without a date (\<^verbatim>\<open>NaT\<close>) it never
  returns.
\<close>

theorem C2_adjust_after_last_trading_day:
  "adjust_timestamp C NaT = None
   \<and> adjust_timestamp C (Timestamp d) = Some (adjust_to_trading_day C d)
   \<and> adjust_steps (nat (MAXORDINAL - d) + 1) C d = Some (adjust_to_trading_day C d)
   \<and> ((\<forall>x\<in>set C. x < d) \<and> d \<le> MAXORDINAL \<longrightarrow>
        adjust_to_trading_day C d = Inl OverflowError
        \<and> (\<forall>n. int n \<le> MAXORDINAL - d \<longrightarrow> adjust_steps n C d = None))"
proof -
  have "adjust_steps (nat (MAXORDINAL - d) + 1) C d = Some (adjust_to_trading_day C d)"
    by (rule adjust_steps_enough) auto
  moreover have "adjust_to_trading_day C d = Inl OverflowError" if "\<forall>x\<in>set C. x < d"
    using that by (rule adjust_overflow)
  moreover have "adjust_steps n C d = None" if "\<forall>x\<in>set C. x < d" "int n \<le> MAXORDINAL - d" for n
    using that by (rule adjust_steps_running)
  moreover note adjust_timestamp_NaT [of C] adjust_timestamp_Timestamp [of C d]
  ultimately show ?thesis by blast
qed

theorem C2_adjust_after_last_trading_day_witness:
  "(737791 :: int) < 737800 \<and> (737800 :: int) \<le> MAXORDINAL
   \<and> adjust_timestamp [737790, 737791] (Timestamp 737800) = Some (Inl OverflowError)
   \<and> adjust_to_trading_day [737790, 737791] 737800 = Inl OverflowError
   \<and> adjust_steps 2914259 [737790, 737791] 737800 = None
   \<and> adjust_steps 2914260 [737790, 737791] 737800 = Some (Inl OverflowError)"
proof -
  have h: "(\<forall>x\<in>set [737790, 737791 :: int]. x < 737800) \<and> (737800 :: int) \<le> MAXORDINAL"
    by (simp add: MAXORDINAL_def)
  have n: "nat (MAXORDINAL - 737800) + 1 = 2914260" "int 2914259 \<le> MAXORDINAL - 737800"
    by (simp_all add: MAXORDINAL_def)
  from C2_adjust_after_last_trading_day [of "[737790, 737791]" 737800] h n
  show ?thesis by (simp add: MAXORDINAL_def)
qed

subsection \<open>Returns\<close>

lemma length_pct_change: "length (pct_change cs) = length cs"
  by (cases cs) simp_all


lemma pct_change_nth:
  assumes "0 < i" and "i < length cs"
  shows "pct_change cs ! i = float_sub (float_div (cs ! i) (cs ! (i - 1))) (Fin 1)"
proof (cases cs)
  case Nil
  with assms show ?thesis by simp
next
  case (Cons c cs')
  from assms obtain j where j: "i = Suc j" by (cases i) auto
  with assms Cons have "j < length cs'" by simp
  with Cons j show ?thesis by simp
qed

lemma length_daily_return_col: "length (daily_return_col stock_df) = length stock_df"
  by (simp add: daily_return_col_def length_pct_change)


lemma daily_return_col_nth:
  assumes "0 < i" and "i < length stock_df"
  shows "daily_return_col stock_df ! i =
    float_mul (float_sub (float_div (Close (stock_df ! i)) (Close (stock_df ! (i - 1)))) (Fin 1))
      (Fin 100)"
  using assms by (simp add: daily_return_col_def length_pct_change pct_change_nth)

lemma length_add_return_columns: "length (add_return_columns stock_df) = length stock_df"
  by (simp add: add_return_columns_def length_daily_return_col)

lemma add_return_columns_nth:
  "i < length stock_df \<Longrightarrow> add_return_columns stock_df ! i =
     \<lparr>Date = Date (stock_df ! i), Close = Close (stock_df ! i),
      daily_return = daily_return_col stock_df ! i, date_only = Date (stock_df ! i)\<rparr>"
  by (simp add: add_return_columns_def length_daily_return_col)

lemma date_only_add_return_columns:
  "map date_only (add_return_columns stock_df) = map Date stock_df"
  by (rule nth_equalityI) (simp_all add: length_add_return_columns add_return_columns_nth)


lemma return_zero_prev:
  assumes "is_zero prev" and "is_finite cur"
  shows "float_mul (float_sub (float_div cur prev) (Fin 1)) (Fin 100) =
     (if is_zero cur then NaN else signed_inf (signbit cur \<noteq> signbit prev))"
proof (cases "is_zero cur")
  case True
  with assms have "float_div cur prev = NaN"
    by (auto simp: float_div_def is_zero_def isinf_def)
  with True show ?thesis by (simp add: float_sub_def float_mul_def)
next
  case False
  with assms have d: "float_div cur prev = signed_inf (signbit cur \<noteq> signbit prev)"
    by (auto simp: float_div_def is_zero_def isinf_def is_finite_def)
  have s: "float_sub (signed_inf b) (Fin 1) = signed_inf b" for b
    by (simp add: float_sub_def signed_inf_def isinf_def)
  have m: "float_mul (signed_inf b) (Fin 100) = signed_inf b" for b
    by (simp add: float_mul_def signed_inf_def isinf_def is_zero_def)
  from False show ?thesis by (simp add: d s m)
qed





subsection \<open>The join\<close>

lemma keys_daily_sentiment: "map aligned_date (daily_sentiment news) = group_keys news"
  by (simp add: daily_sentiment_def comp_def)

lemma sorted_group_keys: "sorted_wrt (<) (group_keys news)"
  by (simp add: group_keys_def strict_sorted_iff)

lemma set_group_keys: "set (group_keys news) = fst ` set news"
  by (simp add: group_keys_def)

lemma distinct_group_keys: "distinct (group_keys news)"
  by (simp add: group_keys_def)

lemma set_calculate_daily_metrics:
  "(l, r) \<in> set (calculate_daily_metrics news stock_df) \<longleftrightarrow>
     l \<in> set (daily_sentiment news) \<and> r \<in> set (add_return_columns stock_df)
     \<and> date_only r = aligned_date l \<and> daily_return r \<noteq> NaN"
  by (auto simp: calculate_daily_metrics_def dropna_def merge_inner_def isna_def)

lemma dropna_merge_Cons:
  "dropna (merge_inner (l # left) right) =
     map (\<lambda>r. (l, r)) (filter (\<lambda>r. date_only r = aligned_date l \<and> \<not> isna (daily_return r)) right)
     @ dropna (merge_inner left right)"
  by (simp add: dropna_def merge_inner_def filter_map comp_def conj_commute)

lemma dropna_merge_Nil: "dropna (merge_inner [] right) = []"
  by (simp add: dropna_def merge_inner_def)

lemma count_day_merge:
  "length (filter (\<lambda>m. date_only (snd m) = d) (dropna (merge_inner left right))) =
     length (filter (\<lambda>l. aligned_date l = d) left)
     * length (filter (\<lambda>r. date_only r = d \<and> \<not> isna (daily_return r)) right)"
proof (induction left)
  case Nil
  show ?case by (simp add: dropna_merge_Nil)
next
  case (Cons l left)
  have "length (filter (\<lambda>m. date_only (snd m) = d)
          (map (\<lambda>r. (l, r)) (filter (\<lambda>r. date_only r = aligned_date l \<and> \<not> isna (daily_return r)) right)))
        = (if aligned_date l = d
           then length (filter (\<lambda>r. date_only r = d \<and> \<not> isna (daily_return r)) right) else 0)"
    by (auto simp: filter_map comp_def intro!: arg_cong [where f = length] filter_cong)
  with Cons.IH show ?case
    by (simp add: dropna_merge_Cons)
qed

lemma count_distinct_key:
  "distinct (map f xs) \<Longrightarrow> length (filter (\<lambda>x. f x = k) xs) = (if k \<in> f ` set xs then 1 else 0)"
  by (induction xs) auto

lemma filter_eq_distinct:
  "distinct (xs :: 'a list) \<Longrightarrow> filter (\<lambda>x. x = k) xs = (if k \<in> set xs then [k] else [])"
  by (induction xs) auto

lemma days_merge_distinct:
  assumes "distinct (map date_only right)"
  shows "map (\<lambda>m. date_only (snd m)) (dropna (merge_inner left right)) =
     filter (\<lambda>k. k \<in> date_only ` set (filter (\<lambda>r. \<not> isna (daily_return r)) right))
       (map aligned_date left)"
proof (induction left)
  case Nil
  show ?case by (simp add: dropna_merge_Nil)
next
  case (Cons l left)
  let ?valid = "filter (\<lambda>r. \<not> isna (daily_return r)) right"
  from assms have dv: "distinct (map date_only ?valid)"
    by (rule distinct_map_filter)
  have "map (\<lambda>m. date_only (snd m))
          (map (\<lambda>r. (l, r)) (filter (\<lambda>r. date_only r = aligned_date l \<and> \<not> isna (daily_return r)) right))
        = filter (\<lambda>k. k = aligned_date l) (map date_only ?valid)"
    by (simp add: filter_map comp_def conj_commute)
  also have "\<dots> = (if aligned_date l \<in> set (map date_only ?valid) then [aligned_date l] else [])"
    using dv by (rule filter_eq_distinct)
  finally show ?case using Cons.IH
    by (simp add: dropna_merge_Cons)
qed

subsection \<open>Zero closes\<close>

text \<open>
  Claim C3, as stated, fails. With the closes 100, 0, 50 the bar after the zero close gets
  the return \<open>+\<infinity>\<close>: it is not unset, nothing is flagged, and with a news event on
  that day the infinite return is a row of the joined table.
\<close>

theorem C3_zero_close_counterexample:
  "map daily_return (add_return_columns
      [\<lparr>Date = 1, Close = Fin 100\<rparr>, \<lparr>Date = 2, Close = Fin 0\<rparr>, \<lparr>Date = 3, Close = Fin 50\<rparr>])
     = [NaN, Fin (- 100), PosInf]
   \<and> map (\<lambda>m. (date_only (snd m), daily_return (snd m)))
        (calculate_daily_metrics [(3, 1 / 2)]
          [\<lparr>Date = 1, Close = Fin 100\<rparr>, \<lparr>Date = 2, Close = Fin 0\<rparr>, \<lparr>Date = 3, Close = Fin 50\<rparr>])
     = [(3, PosInf)]"
  by code_simp

lemma nth_add_return_columns_mem:
  "i < length stock_df \<Longrightarrow> add_return_columns stock_df ! i \<in> set (add_return_columns stock_df)"
  by (simp add: length_add_return_columns)

lemma sentiment_row_for_day:
  assumes "k \<in> fst ` set news"
  shows "\<exists>l \<in> set (daily_sentiment news). aligned_date l = k"
proof -
  from assms have "k \<in> set (map aligned_date (daily_sentiment news))"
    by (simp only: keys_daily_sentiment set_group_keys)
  then show ?thesis by auto
qed

text \<open>
  Claim C3, amended. When \<open>close[i-1]\<close> is zero for a bar \<open>i > 0\<close> with a finite
  close, no record fails: the return of bar \<open>i\<close> is NaN when \<open>close[i]\<close> is zero as
  well, and otherwise an infinity, positive when \<open>close[i]\<close> and the zero have the
  same sign and negative when they differ (a previous close of \<open>-0.0\<close> is a zero of
  negative sign). A NaN return is dropped from the joined table like the first day's; an
  infinite return is kept, and is a row of the joined table whenever its day has news.
\<close>

theorem C3_zero_close_return:
  "0 < i \<and> i < length stock_df \<and> is_zero (Close (stock_df ! (i - 1)))
     \<and> is_finite (Close (stock_df ! i)) \<longrightarrow>
     daily_return (add_return_columns stock_df ! i) =
       (if is_zero (Close (stock_df ! i)) then NaN
        else signed_inf (signbit (Close (stock_df ! i)) \<noteq> signbit (Close (stock_df ! (i - 1)))))
     \<and> (\<not> is_zero (Close (stock_df ! i)) \<and> Date (stock_df ! i) \<in> fst ` set news \<longrightarrow>
          (\<exists>m \<in> set (calculate_daily_metrics news stock_df).
             snd m = add_return_columns stock_df ! i \<and> isinf (daily_return (snd m))))
     \<and> (is_zero (Close (stock_df ! i)) \<longrightarrow>
          (\<forall>m \<in> set (calculate_daily_metrics news stock_df).
             snd m \<noteq> add_return_columns stock_df ! i))"
proof (intro impI)
  assume a: "0 < i \<and> i < length stock_df \<and> is_zero (Close (stock_df ! (i - 1)))
     \<and> is_finite (Close (stock_df ! i))"
  let ?r = "add_return_columns stock_df ! i"
  let ?cur = "Close (stock_df ! i)"
  let ?prev = "Close (stock_df ! (i - 1))"
  from a have "is_zero ?prev" "is_finite ?cur" by simp_all
  then have "float_mul (float_sub (float_div ?cur ?prev) (Fin 1)) (Fin 100) =
     (if is_zero ?cur then NaN else signed_inf (signbit ?cur \<noteq> signbit ?prev))"
    by (rule return_zero_prev)
  with a have ret: "daily_return ?r =
       (if is_zero ?cur then NaN else signed_inf (signbit ?cur \<noteq> signbit ?prev))"
    by (simp add: add_return_columns_nth daily_return_col_nth)
  have kept: "\<exists>m \<in> set (calculate_daily_metrics news stock_df). snd m = ?r \<and> isinf (daily_return (snd m))"
    if nz: "\<not> is_zero ?cur" and news: "Date (stock_df ! i) \<in> fst ` set news"
  proof -
    from news obtain l where l: "l \<in> set (daily_sentiment news)" "aligned_date l = Date (stock_df ! i)"
      using sentiment_row_for_day by blast
    from a have mem: "?r \<in> set (add_return_columns stock_df)"
      by (simp add: nth_add_return_columns_mem)
    from a have key: "date_only ?r = Date (stock_df ! i)"
      by (simp add: add_return_columns_nth)
    from ret nz have inf: "isinf (daily_return ?r)" by (simp add: isinf_def signed_inf_def)
    then have "daily_return ?r \<noteq> NaN" by (auto simp: isinf_def)
    with l mem key have "(l, ?r) \<in> set (calculate_daily_metrics news stock_df)"
      by (simp add: set_calculate_daily_metrics)
    with inf show ?thesis by force
  qed
  have dropped: "\<forall>m \<in> set (calculate_daily_metrics news stock_df). snd m \<noteq> ?r"
    if z: "is_zero ?cur"
  proof
    fix m assume "m \<in> set (calculate_daily_metrics news stock_df)"
    then have "daily_return (snd m) \<noteq> NaN"
      using set_calculate_daily_metrics [of "fst m" "snd m"] by simp
    moreover from ret z have "daily_return ?r = NaN" by simp
    ultimately show "snd m \<noteq> ?r" by auto
  qed
  from ret kept dropped show "daily_return ?r =
       (if is_zero ?cur then NaN else signed_inf (signbit ?cur \<noteq> signbit ?prev))
     \<and> (\<not> is_zero ?cur \<and> Date (stock_df ! i) \<in> fst ` set news \<longrightarrow>
          (\<exists>m \<in> set (calculate_daily_metrics news stock_df).
             snd m = ?r \<and> isinf (daily_return (snd m))))
     \<and> (is_zero ?cur \<longrightarrow>
          (\<forall>m \<in> set (calculate_daily_metrics news stock_df). snd m \<noteq> ?r))"
    by blast
qed

theorem C3_zero_close_return_witness:
  "(0 :: nat) < 2
   \<and> 2 < length [\<lparr>Date = 1, Close = Fin 100\<rparr>, \<lparr>Date = 2, Close = NegZero\<rparr>, \<lparr>Date = 3, Close = Fin 50\<rparr>]
   \<and> is_zero (Close ([\<lparr>Date = 1, Close = Fin 100\<rparr>, \<lparr>Date = 2, Close = NegZero\<rparr>,
                       \<lparr>Date = 3, Close = Fin 50\<rparr>] ! (2 - 1)))
   \<and> is_finite (Fin 50)
   \<and> daily_return (add_return_columns
        [\<lparr>Date = 1, Close = Fin 100\<rparr>, \<lparr>Date = 2, Close = NegZero\<rparr>, \<lparr>Date = 3, Close = Fin 50\<rparr>] ! 2)
       = NegInf
   \<and> (\<exists>m \<in> set (calculate_daily_metrics [(3, 1 / 2)]
                [\<lparr>Date = 1, Close = Fin 100\<rparr>, \<lparr>Date = 2, Close = NegZero\<rparr>, \<lparr>Date = 3, Close = Fin 50\<rparr>]).
          date_only (snd m) = 3 \<and> isinf (daily_return (snd m)))"
proof -
  let ?df = "[\<lparr>Date = 1, Close = Fin 100\<rparr>, \<lparr>Date = 2, Close = NegZero\<rparr>, \<lparr>Date = 3, Close = Fin 50\<rparr>]"
  have h: "(0 :: nat) < 2 \<and> 2 < length ?df \<and> is_zero (Close (?df ! (2 - 1))) \<and> is_finite (Close (?df ! 2))"
    by (simp add: is_zero_def is_finite_def)
  have k: "date_only (add_return_columns ?df ! 2) = 3"
    by (simp add: add_return_columns_nth)
  have n: "\<not> is_zero (Close (?df ! 2)) \<and> Date (?df ! 2) \<in> fst ` set [(3 :: int, 1 / 2 :: rat)]"
    by (simp add: is_zero_def)
  from C3_zero_close_return [of 2 ?df "[(3, 1 / 2)]"] h n
  have ret: "daily_return (add_return_columns ?df ! 2) =
        signed_inf (signbit (Close (?df ! 2)) \<noteq> signbit (Close (?df ! (2 - 1))))"
    and "\<exists>m \<in> set (calculate_daily_metrics [(3, 1 / 2)] ?df).
          snd m = add_return_columns ?df ! 2 \<and> isinf (daily_return (snd m))"
    by (simp_all only: if_False simp_thms)
  then obtain m where m: "m \<in> set (calculate_daily_metrics [(3, 1 / 2)] ?df)"
      "snd m = add_return_columns ?df ! 2" "isinf (daily_return (snd m))"
    by blast
  from m(2) k have "date_only (snd m) = 3" by simp
  with m(1,3) have "\<exists>m \<in> set (calculate_daily_metrics [(3, 1 / 2)] ?df).
      date_only (snd m) = 3 \<and> isinf (daily_return (snd m))"
    by blast
  moreover from ret have "daily_return (add_return_columns ?df ! 2) = NegInf"
    by (simp add: signed_inf_def)
  ultimately show ?thesis using h by (simp add: is_finite_def)
qed

subsection \<open>The joined table\<close>

lemma set_dropna_merge:
  "(l, r) \<in> set (dropna (merge_inner left right)) \<longleftrightarrow>
     l \<in> set left \<and> r \<in> set right \<and> date_only r = aligned_date l \<and> \<not> isna (daily_return r)"
  by (auto simp: dropna_def merge_inner_def)

lemma set_days_merge:
  "set (map (\<lambda>m. date_only (snd m)) (dropna (merge_inner left right))) =
     aligned_date ` set left
     \<inter> date_only ` set (filter (\<lambda>r. \<not> isna (daily_return r)) right)"
  (is "?L = ?R")
proof (rule set_eqI)
  fix x
  show "x \<in> ?L \<longleftrightarrow> x \<in> ?R"
  proof
    assume "x \<in> ?L"
    then obtain m where m: "m \<in> set (dropna (merge_inner left right))" "x = date_only (snd m)"
      by auto
    from m(1) have "(fst m, snd m) \<in> set (dropna (merge_inner left right))" by simp
    then have f: "fst m \<in> set left" "snd m \<in> set right" "date_only (snd m) = aligned_date (fst m)"
        "\<not> isna (daily_return (snd m))"
      unfolding set_dropna_merge by blast+
    from f(1) have "aligned_date (fst m) \<in> aligned_date ` set left" by (rule imageI)
    moreover from f(2,4) have "snd m \<in> set (filter (\<lambda>r. \<not> isna (daily_return r)) right)" by simp
    then have "date_only (snd m) \<in> date_only ` set (filter (\<lambda>r. \<not> isna (daily_return r)) right)"
      by (rule imageI)
    ultimately show "x \<in> ?R" unfolding m(2) f(3) by (rule IntI)
  next
    assume "x \<in> ?R"
    then obtain l r where lr: "l \<in> set left" "x = aligned_date l" "r \<in> set right"
        "\<not> isna (daily_return r)" "x = date_only r"
      by auto
    then have "(l, r) \<in> set (dropna (merge_inner left right))"
      unfolding set_dropna_merge by simp
    then have "(\<lambda>m. date_only (snd m)) (l, r) \<in> (\<lambda>m. date_only (snd m)) ` set (dropna (merge_inner left right))"
      by (rule imageI)
    with lr(5) show "x \<in> ?L" by (simp only: set_map snd_conv)
  qed
qed


lemma sorted_all_equal:
  "\<forall>x\<in>set xs. x = (k :: int) \<Longrightarrow> sorted xs"
  by (induction xs) auto

lemma sorted_days_merge:
  "sorted (map aligned_date left) \<Longrightarrow>
   sorted (map (\<lambda>m. date_only (snd m)) (dropna (merge_inner left right)))"
proof (induction left)
  case Nil
  show ?case by (simp add: dropna_merge_Nil)
next
  case (Cons l left)
  let ?here = "map (\<lambda>m. date_only (snd m))
     (map (\<lambda>r. (l, r)) (filter (\<lambda>r. date_only r = aligned_date l \<and> \<not> isna (daily_return r)) right))"
  let ?rest = "map (\<lambda>m. date_only (snd m)) (dropna (merge_inner left right))"
  have here: "\<forall>x\<in>set ?here. x = aligned_date l" by auto
  then have s1: "sorted ?here" by (rule sorted_all_equal)
  from Cons.prems have "sorted (map aligned_date left)" by simp
  then have s2: "sorted ?rest" by (rule Cons.IH)
  have sub: "set ?rest \<subseteq> aligned_date ` set left"
    unfolding set_days_merge by (rule Int_lower1)
  from Cons.prems have low: "\<forall>y\<in>aligned_date ` set left. aligned_date l \<le> y" by simp
  have "\<forall>x\<in>set ?here. \<forall>y\<in>set ?rest. x \<le> y"
  proof (intro ballI)
    fix x y assume "x \<in> set ?here" "y \<in> set ?rest"
    with here sub have "x = aligned_date l" "y \<in> aligned_date ` set left" by blast+
    with low show "x \<le> y" by blast
  qed
  with s1 s2 have "sorted (?here @ ?rest)"
    unfolding sorted_append by blast
  then show ?case by (simp only: dropna_merge_Cons map_append)
qed

text \<open>
  Claim C6, as stated, fails: the cardinality bound does not hold for every pair of
  inputs. With one news day and three bars of that date after a first bar, the joined
  table has three rows, more than the one summary.
\<close>

theorem C6_cardinality_counterexample:
  "length (calculate_daily_metrics [(3, 1 / 4)]
      [\<lparr>Date = 1, Close = Fin 50\<rparr>, \<lparr>Date = 3, Close = Fin 55\<rparr>, \<lparr>Date = 3, Close = Fin 60\<rparr>,
       \<lparr>Date = 3, Close = Fin 66\<rparr>]) = 3
   \<and> length (daily_sentiment [(3, 1 / 4)]) = 1
   \<and> length (filter (\<lambda>r. \<not> isna (daily_return r)) (add_return_columns
      [\<lparr>Date = 1, Close = Fin 50\<rparr>, \<lparr>Date = 3, Close = Fin 55\<rparr>, \<lparr>Date = 3, Close = Fin 60\<rparr>,
       \<lparr>Date = 3, Close = Fin 66\<rparr>])) = 3
   \<and> \<not> (3 :: nat) \<le> min 1 3"
  by code_simp

text \<open>
  Claim C6, amended. For every pair of inputs the joined table holds exactly the days
  that have both a sentiment summary and a return that is not NaN; every joined row pairs
  the summary and the stock row of its day and has a return that is not NaN; the rows are
  in ascending order of their day. When the price series has one bar per date the days
  are strictly ascending, and there are at most as many joined rows as summaries and as
  returns that are not NaN.
\<close>

theorem C6_joined_table:
  "set (map (\<lambda>m. date_only (snd m)) (calculate_daily_metrics news stock_df)) =
       set (map aligned_date (daily_sentiment news))
       \<inter> set (map date_only (filter (\<lambda>r. \<not> isna (daily_return r)) (add_return_columns stock_df)))
   \<and> (\<forall>m \<in> set (calculate_daily_metrics news stock_df).
         \<not> isna (daily_return (snd m))
         \<and> fst m \<in> set (daily_sentiment news)
         \<and> snd m \<in> set (add_return_columns stock_df)
         \<and> aligned_date (fst m) = date_only (snd m))
   \<and> sorted (map (\<lambda>m. date_only (snd m)) (calculate_daily_metrics news stock_df))
   \<and> (distinct (map Date stock_df) \<longrightarrow>
         sorted_wrt (<) (map (\<lambda>m. date_only (snd m)) (calculate_daily_metrics news stock_df))
         \<and> length (calculate_daily_metrics news stock_df) \<le>
             min (length (daily_sentiment news))
                 (length (filter (\<lambda>r. \<not> isna (daily_return r)) (add_return_columns stock_df))))"
proof -
  let ?out = "calculate_daily_metrics news stock_df"
  let ?left = "daily_sentiment news"
  let ?valid = "filter (\<lambda>r. \<not> isna (daily_return r)) (add_return_columns stock_df)"
  let ?days = "map (\<lambda>m. date_only (snd m)) ?out"
  have s: "set ?days = set (map aligned_date ?left) \<inter> set (map date_only ?valid)"
    unfolding calculate_daily_metrics_def set_days_merge by (simp only: set_map)
  have rows: "\<forall>m \<in> set ?out. \<not> isna (daily_return (snd m)) \<and> fst m \<in> set ?left
      \<and> snd m \<in> set (add_return_columns stock_df) \<and> aligned_date (fst m) = date_only (snd m)"
  proof
    fix m assume "m \<in> set ?out"
    then have "(fst m, snd m) \<in> set ?out" by simp
    then show "\<not> isna (daily_return (snd m)) \<and> fst m \<in> set ?left
      \<and> snd m \<in> set (add_return_columns stock_df) \<and> aligned_date (fst m) = date_only (snd m)"
      unfolding set_calculate_daily_metrics by (simp add: isna_def)
  qed
  have "sorted (map aligned_date ?left)"
    unfolding keys_daily_sentiment using sorted_group_keys [of news]
    by (simp only: strict_sorted_iff)
  then have srt: "sorted ?days"
    unfolding calculate_daily_metrics_def by (rule sorted_days_merge)
  have strict: "sorted_wrt (<) ?days \<and> length ?out \<le> min (length ?left) (length ?valid)"
    if d: "distinct (map Date stock_df)"
  proof -
    from d have "distinct (map date_only (add_return_columns stock_df))"
      by (simp only: date_only_add_return_columns)
    then have days: "?days = filter (\<lambda>k. k \<in> date_only ` set ?valid) (map aligned_date ?left)"
      unfolding calculate_daily_metrics_def by (rule days_merge_distinct)
    have st: "sorted_wrt (<) ?days"
      unfolding days keys_daily_sentiment by (rule sorted_wrt_filter) (rule sorted_group_keys)
    then have dist: "distinct ?days"
      using strict_sorted_iff by blast
    have "length ?out = length ?days" by simp
    also have "\<dots> \<le> length (map aligned_date ?left)"
      unfolding days by (rule length_filter_le)
    finally have le1: "length ?out \<le> length ?left" by simp
    have "length ?out = length ?days" by simp
    also have "\<dots> = card (set ?days)"
      using dist by (rule distinct_card [symmetric])
    also have "\<dots> \<le> card (set (map date_only ?valid))"
      unfolding s by (rule card_mono) auto
    also have "\<dots> \<le> length (map date_only ?valid)" by (rule card_length)
    finally have le2: "length ?out \<le> length ?valid" by simp
    from st le1 le2 show ?thesis by simp
  qed
  from s rows srt strict show ?thesis by blast
qed

theorem C6_joined_table_witness:
  "distinct (map Date [\<lparr>Date = 1, Close = Fin 100\<rparr>, \<lparr>Date = 2, Close = Fin 110\<rparr>, \<lparr>Date = 4, Close = Fin 99\<rparr>])
   \<and> map (\<lambda>m. date_only (snd m))
        (calculate_daily_metrics [(4, 1 / 2), (1, 1), (2, 0), (4, 1 / 4), (7, 1)]
           [\<lparr>Date = 1, Close = Fin 100\<rparr>, \<lparr>Date = 2, Close = Fin 110\<rparr>, \<lparr>Date = 4, Close = Fin 99\<rparr>]) = [2, 4]
   \<and> sorted_wrt (<) (map (\<lambda>m. date_only (snd m))
        (calculate_daily_metrics [(4, 1 / 2), (1, 1), (2, 0), (4, 1 / 4), (7, 1)]
           [\<lparr>Date = 1, Close = Fin 100\<rparr>, \<lparr>Date = 2, Close = Fin 110\<rparr>, \<lparr>Date = 4, Close = Fin 99\<rparr>]))
   \<and> length (calculate_daily_metrics [(4, 1 / 2), (1, 1), (2, 0), (4, 1 / 4), (7, 1)]
           [\<lparr>Date = 1, Close = Fin 100\<rparr>, \<lparr>Date = 2, Close = Fin 110\<rparr>, \<lparr>Date = 4, Close = Fin 99\<rparr>])
       \<le> min (length (daily_sentiment [(4, 1 / 2), (1, 1), (2, 0), (4, 1 / 4), (7, 1)]))
              (length (filter (\<lambda>r. \<not> isna (daily_return r)) (add_return_columns
                 [\<lparr>Date = 1, Close = Fin 100\<rparr>, \<lparr>Date = 2, Close = Fin 110\<rparr>, \<lparr>Date = 4, Close = Fin 99\<rparr>])))"
proof -
  let ?df = "[\<lparr>Date = 1, Close = Fin 100\<rparr>, \<lparr>Date = 2, Close = Fin 110\<rparr>, \<lparr>Date = 4, Close = Fin 99\<rparr>]"
  let ?news = "[(4, 1 / 2), (1, 1), (2, 0), (4, 1 / 4), (7, 1 :: rat)]"
  have h: "distinct (map Date ?df)" by simp
  have v: "map (\<lambda>m. date_only (snd m)) (calculate_daily_metrics ?news ?df) = [2, 4]"
    by code_simp
  from C6_joined_table [of ?news ?df] h
  have "sorted_wrt (<) (map (\<lambda>m. date_only (snd m)) (calculate_daily_metrics ?news ?df))
         \<and> length (calculate_daily_metrics ?news ?df) \<le>
             min (length (daily_sentiment ?news))
                 (length (filter (\<lambda>r. \<not> isna (daily_return r)) (add_return_columns ?df)))"
    by blast
  with h v show ?thesis by blast
qed

text \<open>
  Claim C9, as stated, fails. A price series with two bars dated 2 is not rejected: each
  bar gets a return, computed against the row before it, and with news on day 2 both bars
  are rows of the joined table.
\<close>

theorem C9_duplicate_dates_counterexample:
  "map Date [\<lparr>Date = 1, Close = Fin 100\<rparr>, \<lparr>Date = 2, Close = Fin 110\<rparr>, \<lparr>Date = 2, Close = Fin 121\<rparr>] = [1, 2, 2]
   \<and> map (\<lambda>r. (date_only r, daily_return r)) (add_return_columns
        [\<lparr>Date = 1, Close = Fin 100\<rparr>, \<lparr>Date = 2, Close = Fin 110\<rparr>, \<lparr>Date = 2, Close = Fin 121\<rparr>])
      = [(1, NaN), (2, Fin (5629499534213125 / 562949953421312)),
         (2, Fin (5629499534213125 / 562949953421312))]
   \<and> map (\<lambda>m. (date_only (snd m), Close (snd m)))
        (calculate_daily_metrics [(2, 1 / 2)]
          [\<lparr>Date = 1, Close = Fin 100\<rparr>, \<lparr>Date = 2, Close = Fin 110\<rparr>, \<lparr>Date = 2, Close = Fin 121\<rparr>])
      = [(2, Fin 110), (2, Fin 121)]"
  by code_simp

text \<open>
  Claim C9, amended. \<^verbatim>\<open>calculate_daily_metrics\<close> does not look for duplicate dates:
  every bar keeps its row and its date. The joined table has, for a day \<open>d\<close> with news,
  as many rows as there are bars dated \<open>d\<close> whose return is not NaN, and none for a
  day without news; so when the dates of the price series are distinct it has at most one
  row per trading day.
\<close>

theorem C9_rows_per_trading_day:
  "length (add_return_columns stock_df) = length stock_df
   \<and> map date_only (add_return_columns stock_df) = map Date stock_df
   \<and> length (filter (\<lambda>m. date_only (snd m) = d) (calculate_daily_metrics news stock_df)) =
       (if d \<in> fst ` set news
        then length (filter (\<lambda>r. date_only r = d \<and> \<not> isna (daily_return r))
                       (add_return_columns stock_df))
        else 0)
   \<and> (distinct (map Date stock_df) \<longrightarrow>
        length (filter (\<lambda>m. date_only (snd m) = d) (calculate_daily_metrics news stock_df)) \<le> 1)"
proof -
  let ?right = "add_return_columns stock_df"
  let ?n = "length (filter (\<lambda>r. date_only r = d \<and> \<not> isna (daily_return r)) ?right)"
  have "distinct (map aligned_date (daily_sentiment news))"
    by (simp only: keys_daily_sentiment distinct_group_keys)
  then have "length (filter (\<lambda>l. aligned_date l = d) (daily_sentiment news)) =
      (if d \<in> aligned_date ` set (daily_sentiment news) then 1 else 0)"
    by (rule count_distinct_key)
  moreover have "aligned_date ` set (daily_sentiment news) = fst ` set news"
    using keys_daily_sentiment [of news] set_group_keys [of news] by (metis set_map)
  ultimately have cnt: "length (filter (\<lambda>m. date_only (snd m) = d) (calculate_daily_metrics news stock_df))
      = (if d \<in> fst ` set news then ?n else 0)"
    by (simp add: calculate_daily_metrics_def count_day_merge)
  have "?n \<le> 1" if "distinct (map Date stock_df)"
  proof -
    from that have "distinct (map date_only ?right)"
      by (simp only: date_only_add_return_columns)
    then have "length (filter (\<lambda>r. date_only r = d) ?right) \<le> 1"
      by (simp add: count_distinct_key)
    moreover have "?n \<le> length (filter (\<lambda>r. date_only r = d) ?right)"
      using length_filter_le [of "\<lambda>r. \<not> isna (daily_return r)" "filter (\<lambda>r. date_only r = d) ?right"]
      by (simp add: conj_commute)
    ultimately show ?thesis by simp
  qed
  with cnt show ?thesis
    by (simp add: length_add_return_columns date_only_add_return_columns)
qed

theorem C9_rows_per_trading_day_witness:
  "distinct (map Date [\<lparr>Date = 1, Close = Fin 100\<rparr>, \<lparr>Date = 2, Close = Fin 110\<rparr>])
   \<and> length (filter (\<lambda>m. date_only (snd m) = 2)
        (calculate_daily_metrics [(2, 1 / 2), (2, 1)] [\<lparr>Date = 1, Close = Fin 100\<rparr>, \<lparr>Date = 2, Close = Fin 110\<rparr>])) \<le> 1"
  using C9_rows_per_trading_day [of "[\<lparr>Date = 1, Close = Fin 100\<rparr>, \<lparr>Date = 2, Close = Fin 110\<rparr>]" 2 "[(2, 1 / 2), (2, 1)]"]
  by simp

subsection \<open>Daily aggregation\<close>

lemma length_group_scores:
  "length (group_scores k news) = size (filter_mset (\<lambda>e. fst e = k) (mset news))"
  by (simp add: group_scores_def flip: mset_filter)

lemma group_scores_nonempty:
  assumes "k \<in> fst ` set news"
  shows "0 < length (group_scores k news)"
proof -
  from assms obtain e where "e \<in> set news" "fst e = k" by auto
  then have "filter (\<lambda>r. fst r = k) news \<noteq> []"
    by (auto simp: filter_empty_conv)
  then show ?thesis by (simp add: group_scores_def)
qed

lemma group_keys_perm:
  assumes "mset news = mset news'"
  shows "group_keys news = group_keys news'"
proof -
  from assms have "set news = set news'" by (rule mset_eq_setD)
  then have "set (map fst news) = set (map fst news')" by simp
  then have "sorted_list_of_set (set (map fst news)) = sorted_list_of_set (set (map fst news'))"
    by (rule arg_cong)
  then show ?thesis
    by (simp only: group_keys_def sorted_list_of_set_sort_remdups)
qed

lemma mean_example_dyadic:
  "mean [1 / 2, - (1 / 4), 0] = 6004799503160661 / 72057594037927936"
  by code_simp

lemma mean_example_single: "mean [1] = 1"
  by code_simp

lemma mean_example_first_order:
  "mean [3602879701896397 / 36028797018963968, 3152519739159347 / 4503599627370496,
         5404319552844595 / 18014398509481984] = 6605279453476727 / 18014398509481984"
  by code_simp

lemma mean_example_second_order:
  "mean [3602879701896397 / 36028797018963968, 5404319552844595 / 18014398509481984,
         3152519739159347 / 4503599627370496] = 825659931684591 / 2251799813685248"
  by code_simp

text \<open>
  Claim C7, as stated, fails in its numeric part. Three events of one day with the scores
  1/2, -1/4 and 0 have the arithmetic mean 1/12; the aggregated \<^verbatim>\<open>avg_sentiment\<close> is
  the binary64 value 0.08333333333333333, which is not 1/12.
\<close>

theorem C7_rounded_mean_counterexample:
  "map avg_sentiment (daily_sentiment [(5, 1 / 2), (5, - 1 / 4), (5, 0)])
     = [6004799503160661 / 72057594037927936]
   \<and> (1 / 2 + (- 1 / 4) + 0) / 3 = (1 / 12 :: rat)
   \<and> (6004799503160661 / 72057594037927936 :: rat) \<noteq> 1 / 12"
  by (simp add: daily_sentiment_def group_keys_def group_scores_def mean_example_dyadic)

text \<open>
  Claim C7, amended. The aggregation has exactly one row per distinct aligned date of the
  news events; the row's \<^verbatim>\<open>news_count\<close> is the number of events aligned to its day,
  every event counting once; its \<^verbatim>\<open>avg_sentiment\<close> is the binary64 quotient of the
  sum of the day's scores, added in row order with pandas' running compensation, by that
  number: the arithmetic mean up to rounding.
\<close>

theorem C7_daily_sentiment_mean_count:
  "distinct (map aligned_date (daily_sentiment news))
   \<and> set (map aligned_date (daily_sentiment news)) = fst ` set news
   \<and> (\<forall>s \<in> set (daily_sentiment news).
        news_count s = size (filter_mset (\<lambda>e. fst e = aligned_date s) (mset news))
        \<and> 0 < news_count s
        \<and> avg_sentiment s =
            round_fin (group_sum (map snd (filter (\<lambda>e. fst e = aligned_date s) news))
                       / of_nat (news_count s)))"
proof -
  have d: "distinct (map aligned_date (daily_sentiment news))"
    by (simp only: keys_daily_sentiment distinct_group_keys)
  have k: "set (map aligned_date (daily_sentiment news)) = fst ` set news"
    by (simp only: keys_daily_sentiment set_group_keys)
  have r: "news_count s = size (filter_mset (\<lambda>e. fst e = aligned_date s) (mset news))
        \<and> 0 < news_count s
        \<and> avg_sentiment s =
            round_fin (group_sum (map snd (filter (\<lambda>e. fst e = aligned_date s) news))
                       / of_nat (news_count s))"
    if "s \<in> set (daily_sentiment news)" for s
  proof -
    from that obtain key where key: "key \<in> set (group_keys news)"
      and s: "s = \<lparr>aligned_date = key, avg_sentiment = mean (group_scores key news),
                  news_count = length (group_scores key news)\<rparr>"
      by (auto simp: daily_sentiment_def)
    from key have "key \<in> fst ` set news" by (simp only: set_group_keys)
    then have pos: "0 < length (group_scores key news)" by (rule group_scores_nonempty)
    have "news_count s = size (filter_mset (\<lambda>e. fst e = aligned_date s) (mset news))"
      using s by (simp add: length_group_scores)
    moreover have "0 < news_count s" using s pos by simp
    moreover have "avg_sentiment s =
            round_fin (group_sum (map snd (filter (\<lambda>e. fst e = aligned_date s) news))
                       / of_nat (news_count s))"
      using s by (simp add: mean_def group_scores_def)
    ultimately show ?thesis by blast
  qed
  from d k r show ?thesis by blast
qed

theorem C7_daily_sentiment_mean_count_witness:
  "daily_sentiment [(5, 1 / 2), (3, 1), (5, - 1 / 4), (5, 0)] =
     [\<lparr>aligned_date = 3, avg_sentiment = 1, news_count = 1\<rparr>,
      \<lparr>aligned_date = 5, avg_sentiment = 6004799503160661 / 72057594037927936, news_count = 3\<rparr>]
   \<and> news_count \<lparr>aligned_date = 5, avg_sentiment = 6004799503160661 / 72057594037927936,
                  news_count = 3\<rparr> =
       size (filter_mset (\<lambda>e. fst e = 5) (mset [(5 :: int, 1 / 2 :: rat), (3, 1), (5, - 1 / 4), (5, 0)]))
   \<and> avg_sentiment \<lparr>aligned_date = 5, avg_sentiment = 6004799503160661 / 72057594037927936,
                     news_count = 3\<rparr> =
       round_fin (group_sum (map snd (filter (\<lambda>e. fst e = 5)
          [(5 :: int, 1 / 2 :: rat), (3, 1), (5, - 1 / 4), (5, 0)])) / 3)"
proof -
  let ?news = "[(5 :: int, 1 / 2 :: rat), (3, 1), (5, - 1 / 4), (5, 0)]"
  let ?s = "\<lparr>aligned_date = 5, avg_sentiment = 6004799503160661 / 72057594037927936, news_count = 3\<rparr>"
  have v: "daily_sentiment ?news =
     [\<lparr>aligned_date = 3, avg_sentiment = 1, news_count = 1\<rparr>, ?s]"
    by (simp add: daily_sentiment_def group_keys_def group_scores_def mean_example_dyadic
        mean_example_single)
  then have "?s \<in> set (daily_sentiment ?news)" by simp
  with C7_daily_sentiment_mean_count [of ?news]
  have "news_count ?s = size (filter_mset (\<lambda>e. fst e = aligned_date ?s) (mset ?news))
        \<and> avg_sentiment ?s =
            round_fin (group_sum (map snd (filter (\<lambda>e. fst e = aligned_date ?s) ?news))
                       / of_nat (news_count ?s))"
    by blast
  with v show ?thesis by simp
qed

text \<open>
  Claim C8, as stated, fails in its numeric part. The scores 0.1, 0.7, 0.3 (as binary64
  values) of one day give the mean 0.36666666666666664 in this order and
  0.3666666666666667 in the order 0.1, 0.3, 0.7.
\<close>

theorem C8_summation_order_counterexample:
  "mset [(5 :: int, 3602879701896397 / 36028797018963968 :: rat),
         (5, 3152519739159347 / 4503599627370496),
         (5, 5404319552844595 / 18014398509481984)]
     = mset [(5, 3602879701896397 / 36028797018963968),
             (5, 5404319552844595 / 18014398509481984),
             (5, 3152519739159347 / 4503599627370496)]
   \<and> map avg_sentiment (daily_sentiment
        [(5, 3602879701896397 / 36028797018963968),
         (5, 3152519739159347 / 4503599627370496),
         (5, 5404319552844595 / 18014398509481984)])
      = [6605279453476727 / 18014398509481984]
   \<and> map avg_sentiment (daily_sentiment
        [(5, 3602879701896397 / 36028797018963968),
         (5, 5404319552844595 / 18014398509481984),
         (5, 3152519739159347 / 4503599627370496)])
      = [825659931684591 / 2251799813685248]
   \<and> (6605279453476727 / 18014398509481984 :: rat) \<noteq> 825659931684591 / 2251799813685248"
proof -
  have "mset [(5 :: int, 3602879701896397 / 36028797018963968 :: rat),
         (5, 3152519739159347 / 4503599627370496),
         (5, 5404319552844595 / 18014398509481984)]
     = mset [(5, 3602879701896397 / 36028797018963968),
             (5, 5404319552844595 / 18014398509481984),
             (5, 3152519739159347 / 4503599627370496)]"
    by (simp add: add_mset_commute)
  moreover have "map avg_sentiment (daily_sentiment
        [(5, 3602879701896397 / 36028797018963968),
         (5, 3152519739159347 / 4503599627370496),
         (5, 5404319552844595 / 18014398509481984)])
      = [6605279453476727 / 18014398509481984]"
    by (simp add: daily_sentiment_def group_keys_def group_scores_def mean_example_first_order)
  moreover have "map avg_sentiment (daily_sentiment
        [(5, 3602879701896397 / 36028797018963968),
         (5, 5404319552844595 / 18014398509481984),
         (5, 3152519739159347 / 4503599627370496)])
      = [825659931684591 / 2251799813685248]"
    by (simp add: daily_sentiment_def group_keys_def group_scores_def mean_example_second_order)
  moreover have "(6605279453476727 / 18014398509481984 :: rat) \<noteq> 825659931684591 / 2251799813685248"
    by simp
  ultimately show ?thesis by blast
qed

text \<open>
  Claim C8, amended. Two lists of scored news events that are permutations of each other
  give the same days, in the same order, with the same \<^verbatim>\<open>news_count\<close>. They give
  the same \<^verbatim>\<open>avg_sentiment\<close> as well when the events of each day come in the same
  order in both lists; the scores of a day are added in row order, so another order
  within a day can change the last bits of its mean.
\<close>

theorem C8_daily_sentiment_permutation:
  assumes "mset news = mset news'"
  shows "map aligned_date (daily_sentiment news) = map aligned_date (daily_sentiment news')
       \<and> map news_count (daily_sentiment news) = map news_count (daily_sentiment news')
       \<and> ((\<forall>k. group_scores k news = group_scores k news') \<longrightarrow>
            daily_sentiment news = daily_sentiment news')"
proof -
  have keys: "group_keys news = group_keys news'"
    using assms by (rule group_keys_perm)
  have len: "length (group_scores k news) = length (group_scores k news')" for k
    by (simp only: length_group_scores assms)
  have "map aligned_date (daily_sentiment news) = map aligned_date (daily_sentiment news')"
    by (simp only: keys_daily_sentiment keys)
  moreover have "map news_count (daily_sentiment news) = map news_count (daily_sentiment news')"
    by (simp add: daily_sentiment_def keys len comp_def)
  moreover have "daily_sentiment news = daily_sentiment news'"
    if "\<forall>k. group_scores k news = group_scores k news'"
    using that by (simp add: daily_sentiment_def keys)
  ultimately show ?thesis by blast
qed

theorem C8_daily_sentiment_permutation_witness:
  "mset [(5 :: int, 1 / 2 :: rat), (3, 1), (5, - 1 / 4)] = mset [(3, 1), (5, 1 / 2), (5, - 1 / 4)]
   \<and> map aligned_date (daily_sentiment [(5, 1 / 2), (3, 1), (5, - 1 / 4)]) = [3, 5]
   \<and> map news_count (daily_sentiment [(5, 1 / 2), (3, 1), (5, - 1 / 4)])
       = map news_count (daily_sentiment [(3, 1), (5, 1 / 2), (5, - 1 / 4)])
   \<and> daily_sentiment [(5, 1 / 2), (3, 1), (5, - 1 / 4)]
       = daily_sentiment [(3, 1), (5, 1 / 2), (5, - 1 / 4)]"
proof -
  let ?a = "[(5 :: int, 1 / 2 :: rat), (3, 1), (5, - 1 / 4)]"
  let ?b = "[(3 :: int, 1 :: rat), (5, 1 / 2), (5, - 1 / 4)]"
  have h: "mset ?a = mset ?b" by (simp add: add_mset_commute)
  have g: "\<forall>k. group_scores k ?a = group_scores k ?b"
    by (simp add: group_scores_def)
  have v: "map aligned_date (daily_sentiment ?a) = [3, 5]"
    by (simp add: daily_sentiment_def group_keys_def comp_def)
  from C8_daily_sentiment_permutation [OF h] g v h show ?thesis by simp
qed

subsection \<open>Correlation\<close>

lemma is_constant_all_equal:
  assumes "x \<noteq> []" and "\<forall>v\<in>set x. v = c" and "c \<noteq> NaN"
  shows "is_constant x"
proof (cases x)
  case Nil
  with assms(1) show ?thesis by simp
next
  case (Cons x0 rest)
  with assms(2) have x0: "x0 = c" by simp
  have "list_all (\<lambda>v. float_eq v c) x"
    using assms(2,3) by (auto simp: list_all_iff float_eq_def)
  with Cons x0 show ?thesis
    by (simp add: is_constant_def)
qed


lemma calculate_correlation_short:
  "length merged_df < 2 \<Longrightarrow> calculate_correlation st merged_df = Inl ValueError"
  by (simp add: calculate_correlation_def pearsonr_def)

lemma calculate_correlation_constant:
  assumes "2 \<le> length merged_df"
    and "is_constant (map (\<lambda>m. Fin (avg_sentiment (fst m))) merged_df)
         \<or> is_constant (map (\<lambda>m. daily_return (snd m)) merged_df)"
  shows "calculate_correlation st merged_df = Inr (NaN, NaN)"
proof -
  from assms(1) have "\<not> length merged_df < 2" by simp
  with assms(2) show ?thesis
    unfolding calculate_correlation_def pearsonr_def by simp
qed

text \<open>
  Claim C4, as stated, fails. Two joined days with the same average sentiment 1/2 make the
  sentiment column constant; \<^verbatim>\<open>calculate_correlation\<close> raises nothing and returns
  the pair (NaN, NaN) as coefficient and p-value.
\<close>

theorem C4_constant_column_counterexample:
  "calculate_daily_metrics [(2, 1 / 2), (3, 1 / 2)]
      [\<lparr>Date = 1, Close = Fin 100\<rparr>, \<lparr>Date = 2, Close = Fin 110\<rparr>, \<lparr>Date = 3, Close = Fin 99\<rparr>]
     = [(\<lparr>aligned_date = 2, avg_sentiment = 1 / 2, news_count = 1\<rparr>,
         \<lparr>Date = 2, Close = Fin 110,
            daily_return = Fin (5629499534213125 / 562949953421312), date_only = 2\<rparr>),
        (\<lparr>aligned_date = 3, avg_sentiment = 1 / 2, news_count = 1\<rparr>,
         \<lparr>Date = 3, Close = Fin 99,
            daily_return = Fin (- 5629499534213119 / 562949953421312), date_only = 3\<rparr>)]
   \<and> calculate_correlation (\<lambda>x y. (Fin 1, Fin 0))
       (calculate_daily_metrics [(2, 1 / 2), (3, 1 / 2)]
          [\<lparr>Date = 1, Close = Fin 100\<rparr>, \<lparr>Date = 2, Close = Fin 110\<rparr>, \<lparr>Date = 3, Close = Fin 99\<rparr>])
     = Inr (NaN, NaN)"
  by code_simp

text \<open>
  Claim C4, amended. With fewer than 2 joined rows \<^verbatim>\<open>calculate_correlation\<close> fails:
  \<^verbatim>\<open>pearsonr\<close> raises \<^verbatim>\<open>ValueError\<close> and no coefficient is returned. With at
  least 2 rows and a constant \<^verbatim>\<open>avg_sentiment\<close> or \<^verbatim>\<open>daily_return\<close> column it
  does not fail: it returns NaN for the coefficient and NaN for the p-value.
\<close>

theorem C4_correlation_preconditions:
  "(length merged_df < 2 \<longrightarrow> calculate_correlation st merged_df = Inl ValueError)
   \<and> (2 \<le> length merged_df
        \<and> ((\<exists>c. \<forall>m\<in>set merged_df. avg_sentiment (fst m) = c)
           \<or> (\<exists>v. v \<noteq> NaN \<and> (\<forall>m\<in>set merged_df. daily_return (snd m) = v)))
      \<longrightarrow> calculate_correlation st merged_df = Inr (NaN, NaN))"
proof (intro conjI impI)
  assume "length merged_df < 2"
  then show "calculate_correlation st merged_df = Inl ValueError"
    by (rule calculate_correlation_short)
next
  let ?x = "map (\<lambda>m. Fin (avg_sentiment (fst m))) merged_df"
  let ?y = "map (\<lambda>m. daily_return (snd m)) merged_df"
  assume a: "2 \<le> length merged_df
        \<and> ((\<exists>c. \<forall>m\<in>set merged_df. avg_sentiment (fst m) = c)
           \<or> (\<exists>v. v \<noteq> NaN \<and> (\<forall>m\<in>set merged_df. daily_return (snd m) = v)))"
  then have len: "2 \<le> length merged_df" by (rule conjunct1)
  then have "merged_df \<noteq> []" by auto
  then have ne: "?x \<noteq> []" "?y \<noteq> []" by simp_all
  from a consider (sent) c where "\<forall>m\<in>set merged_df. avg_sentiment (fst m) = c"
    | (ret) v where "v \<noteq> NaN" "\<forall>m\<in>set merged_df. daily_return (snd m) = v"
    by blast
  then have "is_constant ?x \<or> is_constant ?y"
  proof cases
    case sent
    then have "\<forall>v\<in>set ?x. v = Fin c" by auto
    with ne(1) have "is_constant ?x"
      by (rule is_constant_all_equal) simp
    then show ?thesis ..
  next
    case ret
    then have "\<forall>w\<in>set ?y. w = v" by auto
    with ne(2) have "is_constant ?y"
      using ret(1) by (rule is_constant_all_equal)
    then show ?thesis ..
  qed
  with len show "calculate_correlation st merged_df = Inr (NaN, NaN)"
    by (rule calculate_correlation_constant)
qed

theorem C4_correlation_preconditions_witness:
  "length [(\<lparr>aligned_date = 2, avg_sentiment = 1 / 2, news_count = 1\<rparr>,
            \<lparr>Date = 2, Close = Fin 110, daily_return = Fin 10, date_only = 2\<rparr>)] < 2
   \<and> calculate_correlation (\<lambda>x y. (Fin 1, Fin 0))
        [(\<lparr>aligned_date = 2, avg_sentiment = 1 / 2, news_count = 1\<rparr>,
          \<lparr>Date = 2, Close = Fin 110, daily_return = Fin 10, date_only = 2\<rparr>)] = Inl ValueError
   \<and> 2 \<le> length [(\<lparr>aligned_date = 2, avg_sentiment = 1 / 4, news_count = 1\<rparr>,
                  \<lparr>Date = 2, Close = Fin 110, daily_return = PosInf, date_only = 2\<rparr>),
                 (\<lparr>aligned_date = 3, avg_sentiment = 1 / 2, news_count = 3\<rparr>,
                  \<lparr>Date = 3, Close = Fin 99, daily_return = PosInf, date_only = 3\<rparr>)]
   \<and> calculate_correlation (\<lambda>x y. (Fin 1, Fin 0))
        [(\<lparr>aligned_date = 2, avg_sentiment = 1 / 4, news_count = 1\<rparr>,
          \<lparr>Date = 2, Close = Fin 110, daily_return = PosInf, date_only = 2\<rparr>),
         (\<lparr>aligned_date = 3, avg_sentiment = 1 / 2, news_count = 3\<rparr>,
          \<lparr>Date = 3, Close = Fin 99, daily_return = PosInf, date_only = 3\<rparr>)] = Inr (NaN, NaN)"
proof -
  let ?one = "[(\<lparr>aligned_date = 2, avg_sentiment = 1 / 2, news_count = 1\<rparr>,
            \<lparr>Date = 2, Close = Fin 110, daily_return = Fin 10, date_only = 2\<rparr>)]"
  let ?two = "[(\<lparr>aligned_date = 2, avg_sentiment = 1 / 4, news_count = 1\<rparr>,
                  \<lparr>Date = 2, Close = Fin 110, daily_return = PosInf, date_only = 2\<rparr>),
                 (\<lparr>aligned_date = 3, avg_sentiment = 1 / 2, news_count = 3\<rparr>,
                  \<lparr>Date = 3, Close = Fin 99, daily_return = PosInf, date_only = 3\<rparr>)]"
  have h: "\<exists>v. v \<noteq> NaN \<and> (\<forall>m\<in>set ?two. daily_return (snd m) = v)"
    by (rule exI [of _ PosInf]) simp
  from C4_correlation_preconditions [of ?one "\<lambda>x y. (Fin 1, Fin 0)"]
  have "calculate_correlation (\<lambda>x y. (Fin 1, Fin 0)) ?one = Inl ValueError" by simp
  moreover from C4_correlation_preconditions [of ?two "\<lambda>x y. (Fin 1, Fin 0)"] h
  have "calculate_correlation (\<lambda>x y. (Fin 1, Fin 0)) ?two = Inr (NaN, NaN)" by simp
  ultimately show ?thesis by simp
qed

subsection \<open>The whole run\<close>

lemma apply_series_returns:
  assumes "\<forall>t\<in>set ts. t \<noteq> NaT"
  shows "\<exists>r. apply_series (adjust_timestamp C) ts = Some r"
  using assms
proof (induction ts)
  case Nil
  show ?case by simp
next
  case (Cons t ts)
  then obtain d where t: "t = Timestamp d" by (cases t) auto
  from Cons obtain r where r: "apply_series (adjust_timestamp C) ts = Some r" by auto
  show ?case
    by (simp add: t r adjust_timestamp_Timestamp split: sum.split)
qed

lemma align_dates_returns:
  assumes "\<forall>r\<in>set news_df. date r \<noteq> NaT"
  shows "\<exists>r. align_dates news_df stock_df = Some r"
proof (cases "stock_df = []")
  case True
  then show ?thesis by (simp add: align_dates_def)
next
  case False
  from assms have "\<forall>t\<in>set (map date news_df). t \<noteq> NaT" by simp
  then have "\<exists>r. apply_series (adjust_timestamp (trading_days_of stock_df)) (map date news_df) = Some r"
    by (rule apply_series_returns)
  with False show ?thesis by (simp add: align_dates_def)
qed

lemma apply_series_no_return:
  assumes "NaT \<in> set ts"
    and "\<forall>d. Timestamp d \<in> set ts \<longrightarrow> (\<exists>r. adjust_to_trading_day C d = Inr r)"
  shows "apply_series (adjust_timestamp C) ts = None"
  using assms
proof (induction ts)
  case Nil
  then show ?case by simp
next
  case (Cons t ts)
  show ?case
  proof (cases t)
    case NaT
    then show ?thesis by (simp add: adjust_timestamp_NaT)
  next
    case (Timestamp d)
    with Cons.prems obtain r where r: "adjust_to_trading_day C d = Inr r" by auto
    from Timestamp Cons.prems have "NaT \<in> set ts" by simp
    moreover from Cons.prems have
      "\<forall>d. Timestamp d \<in> set ts \<longrightarrow> (\<exists>r. adjust_to_trading_day C d = Inr r)" by simp
    ultimately have "apply_series (adjust_timestamp C) ts = None" by (rule Cons.IH)
    with Timestamp r show ?thesis by (simp add: adjust_timestamp_Timestamp)
  qed
qed

lemma align_dates_no_return:
  assumes "stock_df \<noteq> []" and "NaT \<in> date ` set news_df"
    and "\<forall>d. Timestamp d \<in> date ` set news_df \<longrightarrow>
           (\<exists>r. adjust_to_trading_day (trading_days_of stock_df) d = Inr r)"
  shows "align_dates news_df stock_df = None"
proof -
  from assms(2) have "NaT \<in> set (map date news_df)" by simp
  moreover from assms(3) have "\<forall>d. Timestamp d \<in> set (map date news_df) \<longrightarrow>
           (\<exists>r. adjust_to_trading_day (trading_days_of stock_df) d = Inr r)" by simp
  ultimately have "apply_series (adjust_timestamp (trading_days_of stock_df)) (map date news_df) = None"
    by (rule apply_series_no_return)
  with assms(1) show ?thesis by (simp add: align_dates_def)
qed

lemma align_dates_NaT_first:
  assumes "stock_df \<noteq> []" and "date r = NaT"
  shows "align_dates (r # news_df) stock_df = None"
  using assms by (simp add: align_dates_def adjust_timestamp_NaT)

lemma run_analysis_no_return:
  assumes "makedirs_raises env = None" and "load_data env = Some (news_df, stock_df)"
    and "align_dates news_df stock_df = None"
  shows "run_analysis env symbol output_dir = None"
  using assms by (simp add: run_analysis_def)

lemma run_analysis_after_correlation:
  assumes "makedirs_raises env = None" and "load_data env = Some (news_df, stock_df)"
    and "align_dates news_df stock_df = Some (Inr aligned)"
    and "calculate_correlation (statistic env)
           (calculate_daily_metrics (zip aligned (analyze_sentiment (polarity env) news_df)) stock_df)
         = Inr (corr, p_value)"
  shows "run_analysis env symbol output_dir =
     (case to_csv_raises env of
        Some e \<Rightarrow> Some (error_result e [])
      | None \<Rightarrow>
          (case plot_raises env of
             Some e \<Rightarrow>
               Some (error_result e [path_join output_dir (symbol @ ''_news_stock_merged.csv'')])
           | None \<Rightarrow>
          (case show_raises env of
             Some e \<Rightarrow>
               Some (error_result e
                  [path_join output_dir (symbol @ ''_news_stock_merged.csv''),
                   path_join output_dir (symbol @ ''_correlation_plot.png'')])
           | None \<Rightarrow>
               Some \<lparr>returned =
                  [(''symbol'', PyStr symbol),
                   (''correlation'', PyFloat corr),
                   (''p_value'', PyFloat p_value),
                   (''num_observations'', PyInt (int (length
                      (calculate_daily_metrics (zip aligned (analyze_sentiment (polarity env) news_df))
                         stock_df)))),
                   (''merged_data_path'', PyStr (path_join output_dir (symbol @ ''_news_stock_merged.csv''))),
                   (''visualization_path'', PyStr (path_join output_dir (symbol @ ''_correlation_plot.png'')))],
                files_written =
                  [path_join output_dir (symbol @ ''_news_stock_merged.csv''),
                   path_join output_dir (symbol @ ''_correlation_plot.png'')]\<rparr>)))"
  using assms by (simp add: run_analysis_def Let_def split: option.split)

lemma example_align:
  "align_dates
     [\<lparr>date = Timestamp 738001, headline = ''Shares rise'', publisher = ''Wire''\<rparr>,
      \<lparr>date = Timestamp 738002, headline = ''Shares fall'', publisher = ''Wire''\<rparr>]
     [\<lparr>Date = 738000, Close = Fin 100\<rparr>, \<lparr>Date = 738001, Close = Fin 110\<rparr>,
      \<lparr>Date = 738002, Close = Fin 99\<rparr>]
   = Some (Inr [738001, 738002])"
  by (simp add: align_dates_def trading_days_of_def unique_def adjust_timestamp_Timestamp
      adjust_member)

lemma example_correlation:
  "calculate_correlation (\<lambda>x y. (Fin 1, Fin 0))
     (calculate_daily_metrics
        (zip [738001, 738002]
           (analyze_sentiment (\<lambda>h. if h = ''Shares rise'' then 1 / 2 else - (1 / 4))
              [\<lparr>date = Timestamp 738001, headline = ''Shares rise'', publisher = ''Wire''\<rparr>,
               \<lparr>date = Timestamp 738002, headline = ''Shares fall'', publisher = ''Wire''\<rparr>]))
        [\<lparr>Date = 738000, Close = Fin 100\<rparr>, \<lparr>Date = 738001, Close = Fin 110\<rparr>,
         \<lparr>Date = 738002, Close = Fin 99\<rparr>])
   = Inr (Fin 1, Fin 0)"
  by code_simp

lemma example_num_observations:
  "length (calculate_daily_metrics
        (zip [738001, 738002]
           (analyze_sentiment (\<lambda>h. if h = ''Shares rise'' then 1 / 2 else - (1 / 4))
              [\<lparr>date = Timestamp 738001, headline = ''Shares rise'', publisher = ''Wire''\<rparr>,
               \<lparr>date = Timestamp 738002, headline = ''Shares fall'', publisher = ''Wire''\<rparr>]))
        [\<lparr>Date = 738000, Close = Fin 100\<rparr>, \<lparr>Date = 738001, Close = Fin 110\<rparr>,
         \<lparr>Date = 738002, Close = Fin 99\<rparr>]) = 2"
  by code_simp

text \<open>
  Claim C10, as stated, fails. A news file with an empty date cell is loaded, and the run
  never returns: it produces neither a results record nor an error value. And an error
  value does not identify the failing stage: when \<^verbatim>\<open>to_csv\<close> fails for lack of
  disk space, and when the plot does in another run, the two runs return the same
  \<^verbatim>\<open>{"error": ...}\<close>, the second one after writing the merged file.
\<close>

theorem C10_no_return_counterexample:
  "run_analysis
     \<lparr>makedirs_raises = None,
      load_data = Some
        ([\<lparr>date = NaT, headline = ''Shares rise'', publisher = ''Wire''\<rparr>],
         [\<lparr>Date = 738000, Close = Fin 100\<rparr>, \<lparr>Date = 738001, Close = Fin 110\<rparr>]),
      polarity = (\<lambda>h. 1 / 2),
      statistic = (\<lambda>x y. (Fin 1, Fin 0)),
      to_csv_raises = None,
      plot_raises = None,
      show_raises = None\<rparr>
     ''AAPL'' ''../results'' = None
   \<and> run_analysis
     \<lparr>makedirs_raises = None,
      load_data = Some
        ([\<lparr>date = Timestamp 738001, headline = ''Shares rise'', publisher = ''Wire''\<rparr>,
          \<lparr>date = Timestamp 738002, headline = ''Shares fall'', publisher = ''Wire''\<rparr>],
         [\<lparr>Date = 738000, Close = Fin 100\<rparr>, \<lparr>Date = 738001, Close = Fin 110\<rparr>,
          \<lparr>Date = 738002, Close = Fin 99\<rparr>]),
      polarity = (\<lambda>h. if h = ''Shares rise'' then 1 / 2 else - (1 / 4)),
      statistic = (\<lambda>x y. (Fin 1, Fin 0)),
      to_csv_raises = Some (OtherException ''[Errno 28] No space left on device''),
      plot_raises = None,
      show_raises = None\<rparr>
     ''AAPL'' ''../results''
     = Some \<lparr>returned = [(''error'', PyStr ''[Errno 28] No space left on device'')],
             files_written = []\<rparr>
   \<and> run_analysis
     \<lparr>makedirs_raises = None,
      load_data = Some
        ([\<lparr>date = Timestamp 738001, headline = ''Shares rise'', publisher = ''Wire''\<rparr>,
          \<lparr>date = Timestamp 738002, headline = ''Shares fall'', publisher = ''Wire''\<rparr>],
         [\<lparr>Date = 738000, Close = Fin 100\<rparr>, \<lparr>Date = 738001, Close = Fin 110\<rparr>,
          \<lparr>Date = 738002, Close = Fin 99\<rparr>]),
      polarity = (\<lambda>h. if h = ''Shares rise'' then 1 / 2 else - (1 / 4)),
      statistic = (\<lambda>x y. (Fin 1, Fin 0)),
      to_csv_raises = None,
      plot_raises = Some (OtherException ''[Errno 28] No space left on device''),
      show_raises = None\<rparr>
     ''AAPL'' ''../results''
     = Some \<lparr>returned = [(''error'', PyStr ''[Errno 28] No space left on device'')],
             files_written = [''../results/AAPL_news_stock_merged.csv'']\<rparr>"
proof -
  let ?stock2 = "[\<lparr>Date = 738000, Close = Fin 100\<rparr>, \<lparr>Date = 738001, Close = Fin 110\<rparr>]"
  let ?r = "\<lparr>date = NaT, headline = ''Shares rise'', publisher = ''Wire''\<rparr>"
  have "align_dates (?r # []) ?stock2 = None"
    by (rule align_dates_NaT_first) simp_all
  then have first: "run_analysis
     \<lparr>makedirs_raises = None, load_data = Some ([?r], ?stock2), polarity = (\<lambda>h. 1 / 2),
      statistic = (\<lambda>x y. (Fin 1, Fin 0)), to_csv_raises = None, plot_raises = None,
      show_raises = None\<rparr>
     ''AAPL'' ''../results'' = None"
    by (intro run_analysis_no_return) simp_all
  let ?news = "[\<lparr>date = Timestamp 738001, headline = ''Shares rise'', publisher = ''Wire''\<rparr>,
          \<lparr>date = Timestamp 738002, headline = ''Shares fall'', publisher = ''Wire''\<rparr>]"
  let ?stock = "[\<lparr>Date = 738000, Close = Fin 100\<rparr>, \<lparr>Date = 738001, Close = Fin 110\<rparr>,
          \<lparr>Date = 738002, Close = Fin 99\<rparr>]"
  let ?pol = "\<lambda>h. if h = ''Shares rise'' then 1 / 2 else - (1 / 4 :: rat)"
  let ?st = "\<lambda>(x :: float list) (y :: float list). (Fin 1, Fin 0)"
  let ?e = "OtherException ''[Errno 28] No space left on device''"
  let ?env1 = "\<lparr>makedirs_raises = None, load_data = Some (?news, ?stock), polarity = ?pol,
      statistic = ?st, to_csv_raises = Some ?e, plot_raises = None, show_raises = None\<rparr>"
  let ?env2 = "\<lparr>makedirs_raises = None, load_data = Some (?news, ?stock), polarity = ?pol,
      statistic = ?st, to_csv_raises = None, plot_raises = Some ?e, show_raises = None\<rparr>"
  have second: "run_analysis ?env1 ''AAPL'' ''../results''
     = Some \<lparr>returned = [(''error'', PyStr ''[Errno 28] No space left on device'')],
             files_written = []\<rparr>"
    by (subst run_analysis_after_correlation [where news_df = ?news and stock_df = ?stock
          and aligned = "[738001, 738002]" and corr = "Fin 1" and p_value = "Fin 0"])
       (simp_all add: example_align example_correlation error_result_def)
  have third: "run_analysis ?env2 ''AAPL'' ''../results''
     = Some \<lparr>returned = [(''error'', PyStr ''[Errno 28] No space left on device'')],
             files_written = [''../results/AAPL_news_stock_merged.csv'']\<rparr>"
    by (subst run_analysis_after_correlation [where news_df = ?news and stock_df = ?stock
          and aligned = "[738001, 738002]" and corr = "Fin 1" and p_value = "Fin 0"])
       (simp_all add: example_align example_correlation error_result_def path_join_def)
  from first second third show ?thesis by (intro conjI)
qed

text \<open>
  Claim C10, amended. When every loaded news row has a date, a run of
  \<^verbatim>\<open>run_analysis\<close> returns, and what it returns is either a dict with exactly the
  keys \<^verbatim>\<open>symbol\<close>, \<^verbatim>\<open>correlation\<close>, \<^verbatim>\<open>p_value\<close>,
  \<^verbatim>\<open>num_observations\<close>, \<^verbatim>\<open>merged_data_path\<close> and \<^verbatim>\<open>visualization_path\<close>,
  or a dict with the single key \<^verbatim>\<open>error\<close>. The results record is returned exactly
  when no stage fails; it holds the symbol, the estimator's pair, the number of joined
  rows and the two paths, and both files are written. Otherwise the error value is
  \<^verbatim>\<open>Data loading failed\<close>, or the text \<^verbatim>\<open>str(e)\<close> of the exception of the first
  stage that failed, which does not name the stage; when the failure comes after
  \<^verbatim>\<open>to_csv\<close> the merged file has been written already. When a loaded news row has
  no date, the stock frame has rows and every dated news row finds a trading day, the run
  never returns.
\<close>

theorem C10_run_analysis_outcomes:
  "((\<forall>news_df stock_df. load_data env = Some (news_df, stock_df) \<longrightarrow>
        (\<forall>r\<in>set news_df. date r \<noteq> NaT)) \<longrightarrow>
    (\<exists>out. run_analysis env symbol output_dir = Some out
     \<and> (map fst (returned out) =
           [''symbol'', ''correlation'', ''p_value'', ''num_observations'', ''merged_data_path'',
            ''visualization_path'']
         \<or> (\<exists>msg. returned out = [(''error'', PyStr msg)]))
     \<and> (\<forall>e. makedirs_raises env = Some e \<longrightarrow> out = error_result e [])
     \<and> (makedirs_raises env = None \<and> load_data env = None \<longrightarrow>
          out = \<lparr>returned = [(''error'', PyStr ''Data loading failed'')], files_written = []\<rparr>)
     \<and> (\<forall>news_df stock_df.
          makedirs_raises env = None \<and> load_data env = Some (news_df, stock_df) \<longrightarrow>
            (\<forall>e. align_dates news_df stock_df = Some (Inl e) \<longrightarrow> out = error_result e [])
          \<and> (\<forall>aligned. align_dates news_df stock_df = Some (Inr aligned) \<longrightarrow>
               (\<forall>e. calculate_correlation (statistic env)
                      (calculate_daily_metrics
                         (zip aligned (analyze_sentiment (polarity env) news_df)) stock_df) = Inl e
                    \<longrightarrow> out = error_result e [])
             \<and> (\<forall>corr p_value.
                    calculate_correlation (statistic env)
                      (calculate_daily_metrics
                         (zip aligned (analyze_sentiment (polarity env) news_df)) stock_df)
                      = Inr (corr, p_value) \<longrightarrow>
                    (\<forall>e. to_csv_raises env = Some e \<longrightarrow> out = error_result e [])
                  \<and> (to_csv_raises env = None \<longrightarrow>
                       (\<forall>e. plot_raises env = Some e \<longrightarrow>
                          out = error_result e
                                  [path_join output_dir (symbol @ ''_news_stock_merged.csv'')])
                     \<and> (plot_raises env = None \<longrightarrow>
                          (\<forall>e. show_raises env = Some e \<longrightarrow>
                             out = error_result e
                                  [path_join output_dir (symbol @ ''_news_stock_merged.csv''),
                                   path_join output_dir (symbol @ ''_correlation_plot.png'')])
                        \<and> (show_raises env = None \<longrightarrow>
                          out = \<lparr>returned =
                                  [(''symbol'', PyStr symbol),
                                   (''correlation'', PyFloat corr),
                                   (''p_value'', PyFloat p_value),
                                   (''num_observations'', PyInt (int (length
                                      (calculate_daily_metrics
                                         (zip aligned (analyze_sentiment (polarity env) news_df))
                                         stock_df)))),
                                   (''merged_data_path'',
                                      PyStr (path_join output_dir (symbol @ ''_news_stock_merged.csv''))),
                                   (''visualization_path'',
                                      PyStr (path_join output_dir (symbol @ ''_correlation_plot.png'')))],
                                files_written =
                                  [path_join output_dir (symbol @ ''_news_stock_merged.csv''),
                                   path_join output_dir (symbol @ ''_correlation_plot.png'')]\<rparr>))))))))
   \<and> (\<forall>news_df stock_df.
         makedirs_raises env = None \<and> load_data env = Some (news_df, stock_df)
         \<and> stock_df \<noteq> [] \<and> NaT \<in> date ` set news_df
         \<and> (\<forall>d. Timestamp d \<in> date ` set news_df \<longrightarrow>
               (\<exists>r. adjust_to_trading_day (trading_days_of stock_df) d = Inr r))
         \<longrightarrow> run_analysis env symbol output_dir = None)"
  (is "(?H \<longrightarrow> ?A) \<and> ?B")
proof (rule conjI)
  show ?B
  proof (intro allI impI)
    fix news_df stock_df
    assume k: "makedirs_raises env = None \<and> load_data env = Some (news_df, stock_df)
         \<and> stock_df \<noteq> [] \<and> NaT \<in> date ` set news_df
         \<and> (\<forall>d. Timestamp d \<in> date ` set news_df \<longrightarrow>
               (\<exists>r. adjust_to_trading_day (trading_days_of stock_df) d = Inr r))"
    then have "align_dates news_df stock_df = None"
      by (intro align_dates_no_return) simp_all
    with k show "run_analysis env symbol output_dir = None"
      by (intro run_analysis_no_return [where news_df = news_df and stock_df = stock_df]) simp_all
  qed
next
  show "?H \<longrightarrow> ?A"
  proof
    assume dated: ?H
    show ?A
    proof (cases "makedirs_raises env")
      case (Some e)
      then show ?thesis
        by (simp add: run_analysis_def error_result_def)
    next
      case None
      note mk = this
      show ?thesis
      proof (cases "load_data env")
        case None
        with mk show ?thesis
          by (simp add: run_analysis_def)
      next
        case (Some frames)
        obtain news_df stock_df where fr: "frames = (news_df, stock_df)" by (cases frames)
        with Some have ld: "load_data env = Some (news_df, stock_df)" by simp
        with dated have "\<forall>r\<in>set news_df. date r \<noteq> NaT" by blast
        then obtain al where al: "align_dates news_df stock_df = Some al"
          using align_dates_returns by blast
        show ?thesis
        proof (cases al)
          case (Inl e)
          with mk ld al show ?thesis
            by (simp add: run_analysis_def error_result_def)
        next
          case (Inr aligned)
          note ar = this
          let ?merged = "calculate_daily_metrics
                             (zip aligned (analyze_sentiment (polarity env) news_df)) stock_df"
          show ?thesis
          proof (cases "calculate_correlation (statistic env) ?merged")
            case (Inl e)
            with mk ld al ar show ?thesis
              by (simp add: run_analysis_def error_result_def Let_def)
          next
            case (Inr pr)
            obtain corr p_value where pr: "pr = (corr, p_value)" by (cases pr)
            with Inr have cc: "calculate_correlation (statistic env) ?merged = Inr (corr, p_value)"
              by simp
            from al ar have al': "align_dates news_df stock_df = Some (Inr aligned)" by simp
            note run = run_analysis_after_correlation [OF mk ld al' cc, of symbol output_dir]
            show ?thesis
            proof (cases "to_csv_raises env")
              case (Some e)
              with mk ld al' cc run show ?thesis
                by (simp add: error_result_def)
            next
              case None
              note csv = this
              show ?thesis
              proof (cases "plot_raises env")
                case (Some e)
                with csv mk ld al' cc run show ?thesis
                  by (simp add: error_result_def)
              next
                case None
                note plot = this
                show ?thesis
                proof (cases "show_raises env")
                  case (Some e)
                  with plot csv mk ld al' cc run show ?thesis
                    by (simp add: error_result_def)
                next
                  case None
                  with plot csv mk ld al' cc run show ?thesis
                    by simp
                qed
              qed
            qed
          qed
        qed
      qed
    qed
  qed
qed


theorem C10_run_analysis_outcomes_witness:
  "date \<lparr>date = Timestamp 738001, headline = ''Shares rise'', publisher = ''Wire''\<rparr> \<noteq> NaT
   \<and> date \<lparr>date = Timestamp 738002, headline = ''Shares fall'', publisher = ''Wire''\<rparr> \<noteq> NaT
   \<and> run_analysis
     \<lparr>makedirs_raises = None,
      load_data = Some
        ([\<lparr>date = Timestamp 738001, headline = ''Shares rise'', publisher = ''Wire''\<rparr>,
          \<lparr>date = Timestamp 738002, headline = ''Shares fall'', publisher = ''Wire''\<rparr>],
         [\<lparr>Date = 738000, Close = Fin 100\<rparr>, \<lparr>Date = 738001, Close = Fin 110\<rparr>,
          \<lparr>Date = 738002, Close = Fin 99\<rparr>]),
      polarity = (\<lambda>h. if h = ''Shares rise'' then 1 / 2 else - (1 / 4)),
      statistic = (\<lambda>x y. (Fin 1, Fin 0)),
      to_csv_raises = None,
      plot_raises = None,
      show_raises = None\<rparr>
     ''AAPL'' ''../results''
     = Some \<lparr>returned =
               [(''symbol'', PyStr ''AAPL''),
                (''correlation'', PyFloat (Fin 1)),
                (''p_value'', PyFloat (Fin 0)),
                (''num_observations'', PyInt 2),
                (''merged_data_path'', PyStr ''../results/AAPL_news_stock_merged.csv''),
                (''visualization_path'', PyStr ''../results/AAPL_correlation_plot.png'')],
             files_written =
               [''../results/AAPL_news_stock_merged.csv'', ''../results/AAPL_correlation_plot.png'']\<rparr>
   \<and> run_analysis
     \<lparr>makedirs_raises = None,
      load_data = Some
        ([\<lparr>date = Timestamp 738001, headline = ''Shares rise'', publisher = ''Wire''\<rparr>,
          \<lparr>date = NaT, headline = ''Shares fall'', publisher = ''Wire''\<rparr>],
         [\<lparr>Date = 738000, Close = Fin 100\<rparr>, \<lparr>Date = 738001, Close = Fin 110\<rparr>,
          \<lparr>Date = 738002, Close = Fin 99\<rparr>]),
      polarity = (\<lambda>h. if h = ''Shares rise'' then 1 / 2 else - (1 / 4)),
      statistic = (\<lambda>x y. (Fin 1, Fin 0)),
      to_csv_raises = None,
      plot_raises = None,
      show_raises = None\<rparr>
     ''AAPL'' ''../results'' = None"
proof -
  let ?news = "[\<lparr>date = Timestamp 738001, headline = ''Shares rise'', publisher = ''Wire''\<rparr>,
          \<lparr>date = Timestamp 738002, headline = ''Shares fall'', publisher = ''Wire''\<rparr>]"
  let ?stock = "[\<lparr>Date = 738000, Close = Fin 100\<rparr>, \<lparr>Date = 738001, Close = Fin 110\<rparr>,
          \<lparr>Date = 738002, Close = Fin 99\<rparr>]"
  let ?pol = "\<lambda>h. if h = ''Shares rise'' then 1 / 2 else - (1 / 4 :: rat)"
  let ?st = "\<lambda>(x :: float list) (y :: float list). (Fin 1, Fin 0)"
  let ?env = "\<lparr>makedirs_raises = None, load_data = Some (?news, ?stock), polarity = ?pol,
      statistic = ?st, to_csv_raises = None, plot_raises = None, show_raises = None\<rparr>"
  have h: "\<forall>news_df stock_df. load_data ?env = Some (news_df, stock_df) \<longrightarrow>
             (\<forall>r\<in>set news_df. date r \<noteq> NaT)"
    by auto
  have p1: "makedirs_raises ?env = None \<and> load_data ?env = Some (?news, ?stock)" by simp
  have p2: "to_csv_raises ?env = None" "plot_raises ?env = None" "show_raises ?env = None"
    by simp_all
  have c: "calculate_correlation (statistic ?env)
             (calculate_daily_metrics
                (zip [738001, 738002] (analyze_sentiment (polarity ?env) ?news)) ?stock)
           = Inr (Fin 1, Fin 0)"
    using example_correlation by simp
  have n: "length (calculate_daily_metrics
                (zip [738001, 738002] (analyze_sentiment (polarity ?env) ?news)) ?stock) = 2"
    using example_num_observations by simp
  let ?news' = "[\<lparr>date = Timestamp 738001, headline = ''Shares rise'', publisher = ''Wire''\<rparr>,
          \<lparr>date = NaT, headline = ''Shares fall'', publisher = ''Wire''\<rparr>]"
  let ?env' = "\<lparr>makedirs_raises = None, load_data = Some (?news', ?stock), polarity = ?pol,
      statistic = ?st, to_csv_raises = None, plot_raises = None, show_raises = None\<rparr>"
  have "adjust_to_trading_day (trading_days_of ?stock) 738001 = Inr 738001"
    by (rule adjust_member) (simp add: trading_days_of_def unique_def)
  then have k: "makedirs_raises ?env' = None \<and> load_data ?env' = Some (?news', ?stock)
         \<and> ?stock \<noteq> [] \<and> NaT \<in> date ` set ?news'
         \<and> (\<forall>d. Timestamp d \<in> date ` set ?news' \<longrightarrow>
               (\<exists>r. adjust_to_trading_day (trading_days_of ?stock) d = Inr r))"
    by simp
  note N = C10_run_analysis_outcomes [of ?env' "''AAPL''" "''../results''", THEN conjunct2,
      THEN spec [where x = ?news'], THEN spec [where x = ?stock], THEN mp, OF k]
  show ?thesis
  proof (rule exE [OF C10_run_analysis_outcomes [of ?env "''AAPL''" "''../results''",
          THEN conjunct1, THEN mp, OF h]], goal_cases)
  case (1 out)
  note all = this
  then have run: "run_analysis ?env ''AAPL'' ''../results'' = Some out" by (rule conjunct1)
  note T = all [THEN conjunct2, THEN conjunct2, THEN conjunct2, THEN conjunct2]
  note T1 = T [THEN spec [where x = ?news], THEN spec [where x = ?stock], THEN mp, OF p1,
      THEN conjunct2]
  note T2 = T1 [THEN spec [where x = "[738001, 738002]"], THEN mp, OF example_align,
      THEN conjunct2]
  note T3 = T2 [THEN spec [where x = "Fin 1"], THEN spec [where x = "Fin 0"], THEN mp, OF c,
      THEN conjunct2, THEN mp, OF p2(1), THEN conjunct2, THEN mp, OF p2(2),
      THEN conjunct2, THEN mp, OF p2(3)]
  from T3
  have "out = \<lparr>returned =
               [(''symbol'', PyStr ''AAPL''),
                (''correlation'', PyFloat (Fin 1)),
                (''p_value'', PyFloat (Fin 0)),
                (''num_observations'', PyInt 2),
                (''merged_data_path'', PyStr ''../results/AAPL_news_stock_merged.csv''),
                (''visualization_path'', PyStr ''../results/AAPL_correlation_plot.png'')],
             files_written =
               [''../results/AAPL_news_stock_merged.csv'', ''../results/AAPL_correlation_plot.png'']\<rparr>"
    by (simp only: n) (simp add: path_join_def)
  with run N show ?case by simp
  qed
qed

end
